theory Spec2Isabelle
  imports Complex_Main
begin

section \<open>The custom environment of the tutorial \<open>10_train_custom_env\<close>\<close>

text \<open>
  The first code cell of \<^verbatim>\<open>docs/tutorials/10_train_custom_env.ipynb\<close> defines
  \<^verbatim>\<open>
  class ObservationMatchingEnv(gym.Env):
      def __init__(self, num_options: int = 2):
          self.num_options = num_options
          self.observation_space = Box(0, 1, shape=(num_options,), dtype=np.float32)
          self.action_space = Box(0, 1, shape=(num_options,), dtype=np.float32)
          self.seed()

      def seed(self, seed=None):
          self.np_random, seed = seeding.np_random(seed)
          return [seed]

      def reset(self):
          self.state = self.np_random.uniform(size=self.num_options)
          return self.state

      def step(self, action):
          reward = -np.abs(self.state - action).mean()
          self.state = self.np_random.uniform(size=self.num_options)
          return self.state, reward, False, {}
  \<close>
  The object is a record that every method takes and returns; an exception is the
  left summand of the result, and then the object is the one the caller still holds.
\<close>

datatype error =
    AttributeError  \<comment> \<open>\<^verbatim>\<open>self.state\<close> read before any \<^verbatim>\<open>reset\<close> has assigned it\<close>
  | ValueError      \<comment> \<open>NumPy: negative dimension, or operands that do not broadcast\<close>
  | GymError        \<comment> \<open>\<^verbatim>\<open>gym.error.Error\<close>: a seed that \<^verbatim>\<open>seeding.np_random\<close> refuses\<close>

subsection \<open>What the class takes from NumPy and Gym\<close>

text \<open>
  A one-dimensional NumPy array: its element type and its entries, as real numbers. Of
  the element types only the two the class meets are needed. \<^verbatim>\<open>np.can_cast\<close>, with
  its default safe casting, lets \<^verbatim>\<open>float32\<close> widen and does not let \<^verbatim>\<open>float64\<close>
  narrow.
\<close>

datatype dtype = Float32 | Float64

datatype ndarray = Array (dtype_of: dtype) (entries: "real list")

fun can_cast :: "dtype \<Rightarrow> dtype \<Rightarrow> bool" where
  "can_cast Float64 Float32 = False"
| "can_cast _ _ = True"

text \<open>
  The random generator is not code of the repository. It is a parameter of the model: a
  generator state of some type \<open>'g\<close>, the two ways \<^verbatim>\<open>seeding.np_random\<close> makes one
  (from a given integer seed, or, for \<^verbatim>\<open>seed=None\<close>, from operating-system entropy
  \<open>'e\<close>, which differs from run to run) and the draw \<^verbatim>\<open>uniform(size=n)\<close>, which
  returns the sample together with the advanced generator. Both constructors also return
  the seed that was used.
\<close>

record ('g, 'e) seeding =
  np_random_of_seed :: "int \<Rightarrow> error + 'g \<times> int"
  np_random_of_entropy :: "'e \<Rightarrow> 'g \<times> int"
  uniform :: "'g \<Rightarrow> int \<Rightarrow> error + ndarray \<times> 'g"

text \<open>
  The documented contract of \<^verbatim>\<open>uniform(low=0.0, high=1.0, size=n)\<close>: an array of
  \<^verbatim>\<open>float64\<close> with \<open>n\<close> samples from the half-open interval \<open>[0, 1)\<close>, and no
  array for a negative size.
\<close>

definition unit_vector :: "int \<Rightarrow> real list \<Rightarrow> bool" where
  "unit_vector n xs \<longleftrightarrow> int (length xs) = n \<and> list_all (\<lambda>x. 0 \<le> x \<and> x < 1) xs"

definition uniform_contract :: "('g, 'e) seeding \<Rightarrow> bool" where
  "uniform_contract lib \<longleftrightarrow>
     (\<forall>g n a g'. uniform lib g n = Inr (a, g') \<longrightarrow>
        dtype_of a = Float64 \<and> unit_vector n (entries a))"

text \<open>
  \<^verbatim>\<open>Box(low, high, shape=..., dtype=...)\<close> with scalar bounds: the space of arrays of
  that shape and element type with every entry between the bounds, both included. NumPy
  refuses a negative dimension when the bound arrays are allocated. Gym's
  \<^verbatim>\<open>Box.contains(x)\<close> is
  \<^verbatim>\<open>np.can_cast(x.dtype, self.dtype) and x.shape == self.shape and np.all(x >= self.low) and np.all(x <= self.high)\<close>.
\<close>

record Box =
  low :: real
  high :: real
  shape :: "int list"
  dtype :: dtype

definition Box_init :: "real \<Rightarrow> real \<Rightarrow> int list \<Rightarrow> dtype \<Rightarrow> error + Box" where
  "Box_init lo hi shp dt =
     (if list_ex (\<lambda>d. d < 0) shp then Inl ValueError
      else Inr \<lparr>low = lo, high = hi, shape = shp, dtype = dt\<rparr>)"

definition shape_and_bounds :: "Box \<Rightarrow> ndarray \<Rightarrow> bool" where
  "shape_and_bounds b a \<longleftrightarrow>
     shape b = [int (length (entries a))] \<and>
     list_all (\<lambda>x. low b \<le> x \<and> x \<le> high b) (entries a)"

definition contains :: "Box \<Rightarrow> ndarray \<Rightarrow> bool" where
  "contains b a \<longleftrightarrow> can_cast (dtype_of a) (dtype b) \<and> shape_and_bounds b a"

text \<open>
  A NumPy float: the mean of an empty array is \<^verbatim>\<open>nan\<close>, not a number.
\<close>

datatype npfloat = NaN | Fin real

definition np_mean :: "real list \<Rightarrow> npfloat" where
  "np_mean xs = (if xs = [] then NaN else Fin (sum_list xs / real (length xs)))"

fun np_neg :: "npfloat \<Rightarrow> npfloat" where
  "np_neg NaN = NaN"
| "np_neg (Fin r) = Fin (- r)"

text \<open>
  \<^verbatim>\<open>self.state - action\<close> on the entries of one-dimensional arrays: elementwise on
  equal lengths, an array of length one is stretched to the other's length, anything
  else does not broadcast. An action is given by its entries; its element type does not
  enter the reward.
\<close>

definition np_sub :: "real list \<Rightarrow> real list \<Rightarrow> error + real list" where
  "np_sub xs ys =
     (if length xs = length ys then Inr (map2 (-) xs ys)
      else if length ys = 1 then Inr (map (\<lambda>x. x - hd ys) xs)
      else if length xs = 1 then Inr (map (\<lambda>y. hd xs - y) ys)
      else Inl ValueError)"

subsection \<open>The class\<close>

record 'g ObservationMatchingEnv =
  num_options :: int
  observation_space :: Box
  action_space :: Box
  np_random :: 'g
  state :: "ndarray option"  \<comment> \<open>\<open>None\<close>: the attribute does not exist yet\<close>

type_synonym info = "(string \<times> string) list"  \<comment> \<open>the dictionary returned by \<^verbatim>\<open>step\<close>\<close>

text \<open>\<^verbatim>\<open>seed(self, seed=None)\<close>; \<open>e\<close> is the entropy the call would read.\<close>

definition seed ::
  "('g, 'e) seeding \<Rightarrow> 'g ObservationMatchingEnv \<Rightarrow> int option \<Rightarrow> 'e
     \<Rightarrow> error + int list \<times> 'g ObservationMatchingEnv" where
  "seed lib env sd e =
     (case sd of
        None \<Rightarrow> (case np_random_of_entropy lib e of
                   (g, s) \<Rightarrow> Inr ([s], env\<lparr>np_random := g\<rparr>))
      | Some s0 \<Rightarrow> (case np_random_of_seed lib s0 of
                     Inl err \<Rightarrow> Inl err
                   | Inr (g, s) \<Rightarrow> Inr ([s], env\<lparr>np_random := g\<rparr>)))"

text \<open>
  \<^verbatim>\<open>__init__(self, num_options=2)\<close>; \<open>e\<close> is the entropy that the closing
  \<^verbatim>\<open>self.seed()\<close>, a call of \<^verbatim>\<open>seed\<close> with \<^verbatim>\<open>seed=None\<close> whose returned list
  is dropped, reads. The attribute \<^verbatim>\<open>state\<close> is not assigned.
\<close>

definition init ::
  "('g, 'e) seeding \<Rightarrow> int \<Rightarrow> 'e \<Rightarrow> error + 'g ObservationMatchingEnv" where
  "init lib n e =
     (case Box_init 0 1 [n] Float32 of
        Inl err \<Rightarrow> Inl err
      | Inr obs_space \<Rightarrow>
         (case Box_init 0 1 [n] Float32 of
            Inl err \<Rightarrow> Inl err
          | Inr act_space \<Rightarrow>
             (case np_random_of_entropy lib e of
                (g, s) \<Rightarrow>
                  Inr \<lparr>num_options = n, observation_space = obs_space,
                       action_space = act_space, np_random = g, state = None\<rparr>)))"

definition reset ::
  "('g, 'e) seeding \<Rightarrow> 'g ObservationMatchingEnv
     \<Rightarrow> error + ndarray \<times> 'g ObservationMatchingEnv" where
  "reset lib env =
     (case uniform lib (np_random env) (num_options env) of
        Inl err \<Rightarrow> Inl err
      | Inr (a, g) \<Rightarrow> Inr (a, env\<lparr>np_random := g, state := Some a\<rparr>))"

definition step ::
  "('g, 'e) seeding \<Rightarrow> 'g ObservationMatchingEnv \<Rightarrow> real list
     \<Rightarrow> error + (ndarray \<times> npfloat \<times> bool \<times> info) \<times> 'g ObservationMatchingEnv" where
  "step lib env action =
     (case state env of
        None \<Rightarrow> Inl AttributeError
      | Some s \<Rightarrow>
         (case np_sub (entries s) action of
            Inl err \<Rightarrow> Inl err
          | Inr d \<Rightarrow>
             (let reward = np_neg (np_mean (map abs d)) in
              case uniform lib (np_random env) (num_options env) of
                Inl err \<Rightarrow> Inl err
              | Inr (a, g) \<Rightarrow>
                  Inr ((a, reward, False, []),
                       env\<lparr>np_random := g, state := Some a\<rparr>))))"

subsection \<open>Driving an instance\<close>

text \<open>
  The objects a caller can hold: a freshly constructed one, and what any method call
  that returned leaves behind. A call that raised leaves the object as it was.
\<close>

inductive reachable :: "('g, 'e) seeding \<Rightarrow> 'g ObservationMatchingEnv \<Rightarrow> bool"
  for lib :: "('g, 'e) seeding" where
  r_init: "init lib n e = Inr env \<Longrightarrow> reachable lib env"
| r_seed: "reachable lib env \<Longrightarrow> seed lib env sd e = Inr (r, env') \<Longrightarrow> reachable lib env'"
| r_reset: "reachable lib env \<Longrightarrow> reset lib env = Inr (obs, env') \<Longrightarrow> reachable lib env'"
| r_step: "reachable lib env \<Longrightarrow> step lib env a = Inr (out, env') \<Longrightarrow> reachable lib env'"

datatype method_call = Reset | Step "real list"

datatype returned =
    Raised error
  | Observation ndarray
  | Transition ndarray npfloat bool info

text \<open>
  A caller that makes the calls of a list one after the other and records what each
  returned or raised.
\<close>

fun drive ::
  "('g, 'e) seeding \<Rightarrow> 'g ObservationMatchingEnv \<Rightarrow> method_call list \<Rightarrow> returned list" where
  "drive lib env [] = []"
| "drive lib env (Reset # cs) =
     (case reset lib env of
        Inl err \<Rightarrow> Raised err # drive lib env cs
      | Inr (obs, env') \<Rightarrow> Observation obs # drive lib env' cs)"
| "drive lib env (Step a # cs) =
     (case step lib env a of
        Inl err \<Rightarrow> Raised err # drive lib env cs
      | Inr ((obs, reward, done, i), env') \<Rightarrow>
          Transition obs reward done i # drive lib env' cs)"

text \<open>
  A small concrete generator, to run the class on: the generator state is a counter, a
  seed must not be negative, the \<open>i\<close>-th sample of a draw is the counter plus \<open>i\<close>,
  modulo 8, in eighths, as \<^verbatim>\<open>float64\<close>, and a draw of \<open>n\<close> samples advances the counter by \<open>n\<close>.
\<close>

definition counter_seeding :: "(nat, nat) seeding" where
  "counter_seeding =
     \<lparr>np_random_of_seed = (\<lambda>s. if s < 0 then Inl GymError else Inr (nat s, s)),
      np_random_of_entropy = (\<lambda>e. (e, int e)),
      uniform = (\<lambda>g n. if n < 0 then Inl ValueError
                        else Inr (Array Float64
                                    (map (\<lambda>i. real ((g + i) mod 8) / 8) [0..<nat n]),
                                  g + nat n))\<rparr>"

section \<open>The scripts of the repository\<close>

text \<open>
  The repository is four scripts: the code cells of the three tutorial notebooks
  \<^verbatim>\<open>4_train_airl.ipynb\<close> (\<^verbatim>\<open>src/unnamed/part_001\<close>), \<^verbatim>\<open>8_train_sqil.ipynb\<close>
  and \<^verbatim>\<open>10_train_custom_env.ipynb\<close>, and the \<^verbatim>\<open>testcode\<close> block of the AIRL
  documentation page (\<^verbatim>\<open>src/unnamed/part_000\<close>). Each is straight-line Python. A
  script is written down as it stands, as a list of code cells, each the list of its
  statements in source order; comments, and the code inside comments, are left out.
\<close>

datatype expr =
    Name string
  | IntLit int                      \<comment> \<open>\<^verbatim>\<open>1_000\<close> is \<open>IntLit 1000\<close>\<close>
  | Const string                    \<comment> \<open>a float as written, \<^verbatim>\<open>None\<close>, \<^verbatim>\<open>True\<close>, \<^verbatim>\<open>False\<close>\<close>
  | Str string
  | Attr expr string                \<comment> \<open>\<^verbatim>\<open>e.name\<close>\<close>
  | Call expr "expr list"           \<comment> \<open>callee and arguments, in source order\<close>
  | Kw string expr                  \<comment> \<open>\<^verbatim>\<open>name=value\<close>, in an argument or parameter list\<close>
  | Lambda "string list" expr
  | ListE "expr list"
  | TupleE "expr list"
  | DictE "expr list" "expr list"   \<comment> \<open>keys and values\<close>
  | ListComp expr string expr       \<comment> \<open>\<^verbatim>\<open>[elt for var in iter]\<close>\<close>
  | FStr "expr list"                \<comment> \<open>an f-string: literal pieces and interpolated values\<close>
  | Subscript expr expr
  | BinOp expr string expr
  | UnaryOp string expr

datatype stmt =
    Import string "string option"           \<comment> \<open>\<^verbatim>\<open>import module [as alias]\<close>\<close>
  | ImportFrom string string                \<comment> \<open>\<^verbatim>\<open>from module import name\<close>\<close>
  | ClassDef string "expr list" "stmt list" \<comment> \<open>name, bases, body\<close>
  | FunctionDef string "expr list" "stmt list"  \<comment> \<open>name, parameters, body\<close>
  | Assign expr expr                        \<comment> \<open>target and value\<close>
  | ExprS expr
  | Return expr
  | Try "stmt list" "stmt list" "stmt list" \<comment> \<open>body, handlers, \<^verbatim>\<open>finally\<close>\<close>

type_synonym cell = "stmt list"
type_synonym script = "cell list"

subsection \<open>\<^verbatim>\<open>4_train_airl.ipynb\<close>\<close>

definition np_default_rng :: "expr list \<Rightarrow> expr" where
  "np_default_rng args = Call (Attr (Attr (Name ''np'') ''random'') ''default_rng'') args"

definition rollout_info_wrapper :: expr where
  "rollout_info_wrapper =
     Lambda [''env'', ''_''] (Call (Name ''RolloutInfoWrapper'') [Name ''env''])"

definition airl_notebook :: script where
  "airl_notebook =
   [[Import ''numpy'' (Some ''np''),
     Import ''seals'' None,
     ImportFrom ''imitation.policies.serialize'' ''load_policy'',
     ImportFrom ''imitation.util.util'' ''make_vec_env'',
     ImportFrom ''imitation.data.wrappers'' ''RolloutInfoWrapper'',
     Assign (Name ''SEED'') (IntLit 42),
     Assign (Name ''env'')
       (Call (Name ''make_vec_env'')
          [Str ''seals/CartPole-v0'',
           Kw ''rng'' (np_default_rng [Name ''SEED'']),
           Kw ''n_envs'' (IntLit 8),
           Kw ''post_wrappers'' (ListE [rollout_info_wrapper])]),
     Assign (Name ''expert'')
       (Call (Name ''load_policy'')
          [Str ''ppo-huggingface'',
           Kw ''organization'' (Str ''HumanCompatibleAI''),
           Kw ''env_name'' (Str ''seals-CartPole-v0''),
           Kw ''venv'' (Name ''env'')])],
    [ImportFrom ''imitation.data'' ''rollout'',
     Assign (Name ''rollouts'')
       (Call (Attr (Name ''rollout'') ''rollout'')
          [Name ''expert'',
           Name ''env'',
           Call (Attr (Name ''rollout'') ''make_sample_until'')
             [Kw ''min_timesteps'' (Const ''None''), Kw ''min_episodes'' (IntLit 60)],
           Kw ''rng'' (np_default_rng [Name ''SEED''])])],
    [ImportFrom ''imitation.algorithms.adversarial.airl'' ''AIRL'',
     ImportFrom ''imitation.rewards.reward_nets'' ''BasicShapedRewardNet'',
     ImportFrom ''imitation.util.networks'' ''RunningNorm'',
     ImportFrom ''stable_baselines3'' ''PPO'',
     ImportFrom ''stable_baselines3.ppo'' ''MlpPolicy'',
     ImportFrom ''stable_baselines3.common.evaluation'' ''evaluate_policy'',
     Assign (Name ''learner'')
       (Call (Name ''PPO'')
          [Kw ''env'' (Name ''env''),
           Kw ''policy'' (Name ''MlpPolicy''),
           Kw ''batch_size'' (IntLit 16),
           Kw ''ent_coef'' (Const ''0.0''),
           Kw ''learning_rate'' (Const ''0.0001''),
           Kw ''n_epochs'' (IntLit 2),
           Kw ''seed'' (Name ''SEED'')]),
     Assign (Name ''reward_net'')
       (Call (Name ''BasicShapedRewardNet'')
          [Kw ''observation_space'' (Attr (Name ''env'') ''observation_space''),
           Kw ''action_space'' (Attr (Name ''env'') ''action_space''),
           Kw ''normalize_input_layer'' (Name ''RunningNorm'')]),
     Assign (Name ''airl_trainer'')
       (Call (Name ''AIRL'')
          [Kw ''demonstrations'' (Name ''rollouts''),
           Kw ''demo_batch_size'' (IntLit 1024),
           Kw ''gen_replay_buffer_capacity'' (IntLit 2048),
           Kw ''n_disc_updates_per_round'' (IntLit 4),
           Kw ''venv'' (Name ''env''),
           Kw ''gen_algo'' (Name ''learner''),
           Kw ''reward_net'' (Name ''reward_net'')]),
     ExprS (Call (Attr (Name ''env'') ''seed'') [Name ''SEED'']),
     Assign (TupleE [Name ''learner_rewards_before_training'', Name ''_''])
       (Call (Name ''evaluate_policy'')
          [Name ''learner'', Name ''env'', IntLit 100,
           Kw ''return_episode_rewards'' (Const ''True'')]),
     ExprS (Call (Attr (Name ''airl_trainer'') ''train'') [IntLit 20000]),
     ExprS (Call (Attr (Name ''env'') ''seed'') [Name ''SEED'']),
     Assign (TupleE [Name ''learner_rewards_after_training'', Name ''_''])
       (Call (Name ''evaluate_policy'')
          [Name ''learner'', Name ''env'', IntLit 100,
           Kw ''return_episode_rewards'' (Const ''True'')])],
    [Import ''matplotlib.pyplot'' (Some ''plt''),
     ExprS (Call (Name ''print'')
       [Str ''mean reward after training:'',
        Call (Attr (Name ''np'') ''mean'') [Name ''learner_rewards_after_training'']]),
     ExprS (Call (Name ''print'')
       [Str ''mean reward before training:'',
        Call (Attr (Name ''np'') ''mean'') [Name ''learner_rewards_before_training'']]),
     ExprS (Call (Attr (Name ''plt'') ''hist'')
       [ListE [Name ''learner_rewards_before_training'',
               Name ''learner_rewards_after_training''],
        Kw ''label'' (ListE [Str ''untrained'', Str ''trained''])]),
     ExprS (Call (Attr (Name ''plt'') ''legend'') []),
     ExprS (Call (Attr (Name ''plt'') ''show'') [])]]"

subsection \<open>The example of the AIRL documentation page\<close>

text \<open>
  The \<^verbatim>\<open>testcode\<close> block of the page \<open>Adversarial Inverse Reinforcement Learning (AIRL)\<close>:
  one block, so one cell. It differs from the notebook in its imports, in
  \<^verbatim>\<open>make_sample_until(min_episodes=60)\<close>, in the missing \<^verbatim>\<open>ent_coef\<close>, and it
  does not plot.
\<close>

definition airl_doc_example :: script where
  "airl_doc_example =
   [[Import ''numpy'' (Some ''np''),
     Import ''seals'' None,
     ImportFrom ''stable_baselines3'' ''PPO'',
     ImportFrom ''stable_baselines3.common.evaluation'' ''evaluate_policy'',
     ImportFrom ''stable_baselines3.ppo'' ''MlpPolicy'',
     ImportFrom ''imitation.algorithms.adversarial.airl'' ''AIRL'',
     ImportFrom ''imitation.data'' ''rollout'',
     ImportFrom ''imitation.data.wrappers'' ''RolloutInfoWrapper'',
     ImportFrom ''imitation.policies.serialize'' ''load_policy'',
     ImportFrom ''imitation.rewards.reward_nets'' ''BasicShapedRewardNet'',
     ImportFrom ''imitation.util.networks'' ''RunningNorm'',
     ImportFrom ''imitation.util.util'' ''make_vec_env'',
     Assign (Name ''SEED'') (IntLit 42),
     Assign (Name ''env'')
       (Call (Name ''make_vec_env'')
          [Str ''seals/CartPole-v0'',
           Kw ''rng'' (np_default_rng [Name ''SEED'']),
           Kw ''n_envs'' (IntLit 8),
           Kw ''post_wrappers'' (ListE [rollout_info_wrapper])]),
     Assign (Name ''expert'')
       (Call (Name ''load_policy'')
          [Str ''ppo-huggingface'',
           Kw ''organization'' (Str ''HumanCompatibleAI''),
           Kw ''env_name'' (Str ''seals-CartPole-v0''),
           Kw ''venv'' (Name ''env'')]),
     Assign (Name ''rollouts'')
       (Call (Attr (Name ''rollout'') ''rollout'')
          [Name ''expert'',
           Name ''env'',
           Call (Attr (Name ''rollout'') ''make_sample_until'')
             [Kw ''min_episodes'' (IntLit 60)],
           Kw ''rng'' (np_default_rng [Name ''SEED''])]),
     Assign (Name ''learner'')
       (Call (Name ''PPO'')
          [Kw ''env'' (Name ''env''),
           Kw ''policy'' (Name ''MlpPolicy''),
           Kw ''batch_size'' (IntLit 16),
           Kw ''learning_rate'' (Const ''0.0001''),
           Kw ''n_epochs'' (IntLit 2),
           Kw ''seed'' (Name ''SEED'')]),
     Assign (Name ''reward_net'')
       (Call (Name ''BasicShapedRewardNet'')
          [Kw ''observation_space'' (Attr (Name ''env'') ''observation_space''),
           Kw ''action_space'' (Attr (Name ''env'') ''action_space''),
           Kw ''normalize_input_layer'' (Name ''RunningNorm'')]),
     Assign (Name ''airl_trainer'')
       (Call (Name ''AIRL'')
          [Kw ''demonstrations'' (Name ''rollouts''),
           Kw ''demo_batch_size'' (IntLit 1024),
           Kw ''gen_replay_buffer_capacity'' (IntLit 2048),
           Kw ''n_disc_updates_per_round'' (IntLit 4),
           Kw ''venv'' (Name ''env''),
           Kw ''gen_algo'' (Name ''learner''),
           Kw ''reward_net'' (Name ''reward_net'')]),
     ExprS (Call (Attr (Name ''env'') ''seed'') [Name ''SEED'']),
     Assign (TupleE [Name ''learner_rewards_before_training'', Name ''_''])
       (Call (Name ''evaluate_policy'')
          [Name ''learner'', Name ''env'', IntLit 100,
           Kw ''return_episode_rewards'' (Const ''True'')]),
     ExprS (Call (Attr (Name ''airl_trainer'') ''train'') [IntLit 20000]),
     ExprS (Call (Attr (Name ''env'') ''seed'') [Name ''SEED'']),
     Assign (TupleE [Name ''learner_rewards_after_training'', Name ''_''])
       (Call (Name ''evaluate_policy'')
          [Name ''learner'', Name ''env'', IntLit 100,
           Kw ''return_episode_rewards'' (Const ''True'')]),
     ExprS (Call (Name ''print'')
       [Str ''mean reward after training:'',
        Call (Attr (Name ''np'') ''mean'') [Name ''learner_rewards_after_training'']]),
     ExprS (Call (Name ''print'')
       [Str ''mean reward before training:'',
        Call (Attr (Name ''np'') ''mean'') [Name ''learner_rewards_before_training'']])]]"

subsection \<open>\<^verbatim>\<open>8_train_sqil.ipynb\<close>\<close>

definition sqil_notebook :: script where
  "sqil_notebook =
   [[Import ''datasets'' None,
     ImportFrom ''stable_baselines3.common.vec_env'' ''DummyVecEnv'',
     ImportFrom ''imitation.data'' ''huggingface_utils'',
     Assign (Name ''dataset'')
       (Call (Attr (Name ''datasets'') ''load_dataset'')
          [Str ''HumanCompatibleAI/ppo-CartPole-v1'']),
     Assign (Name ''expert_trajectories'')
       (Call (Attr (Name ''huggingface_utils'') ''TrajectoryDatasetSequence'')
          [Subscript (Name ''dataset'') (Str ''train'')])],
    [ImportFrom ''imitation.data'' ''rollout'',
     Assign (Name ''trajectory_stats'')
       (Call (Attr (Name ''rollout'') ''rollout_stats'') [Name ''expert_trajectories'']),
     ExprS (Call (Name ''print'')
       [FStr [Str ''We have '',
              Subscript (Name ''trajectory_stats'') (Str ''n_traj''),
              Str '' trajectories.The average length of each trajectory is '',
              Subscript (Name ''trajectory_stats'') (Str ''len_mean''),
              Str ''.The average return of each trajectory is '',
              Subscript (Name ''trajectory_stats'') (Str ''return_mean''),
              Str ''.'']])],
    [ImportFrom ''imitation.algorithms'' ''sqil'',
     Import ''gym'' None,
     Assign (Name ''venv'')
       (Call (Name ''DummyVecEnv'')
          [ListE [Lambda [] (Call (Attr (Name ''gym'') ''make'') [Str ''CartPole-v1''])]]),
     Assign (Name ''sqil_trainer'')
       (Call (Attr (Name ''sqil'') ''SQIL'')
          [Kw ''venv'' (Name ''venv''),
           Kw ''demonstrations'' (Name ''expert_trajectories''),
           Kw ''policy'' (Str ''MlpPolicy'')])],
    [ImportFrom ''stable_baselines3.common.evaluation'' ''evaluate_policy'',
     Assign (TupleE [Name ''reward_before_training'', Name ''_''])
       (Call (Name ''evaluate_policy'')
          [Attr (Name ''sqil_trainer'') ''policy'', Name ''venv'', IntLit 10]),
     ExprS (Call (Name ''print'')
       [FStr [Str ''Reward before training: '', Name ''reward_before_training'']])],
    [ExprS (Call (Attr (Name ''sqil_trainer'') ''train'')
       [Kw ''total_timesteps'' (IntLit 1000)]),
     Assign (TupleE [Name ''reward_after_training'', Name ''_''])
       (Call (Name ''evaluate_policy'')
          [Attr (Name ''sqil_trainer'') ''policy'', Name ''venv'', IntLit 10]),
     ExprS (Call (Name ''print'')
       [FStr [Str ''Reward after training: '', Name ''reward_after_training'']])]]"

subsection \<open>\<^verbatim>\<open>10_train_custom_env.ipynb\<close>\<close>

text \<open>
  The class of the first cell, as syntax. The annotation of \<^verbatim>\<open>num_options\<close> is left
  out.
\<close>

definition self_uniform :: expr where
  "self_uniform =
     Call (Attr (Attr (Name ''self'') ''np_random'') ''uniform'')
       [Kw ''size'' (Attr (Name ''self'') ''num_options'')]"

definition unit_box :: expr where
  "unit_box =
     Call (Name ''Box'')
       [IntLit 0, IntLit 1,
        Kw ''shape'' (TupleE [Name ''num_options'']),
        Kw ''dtype'' (Attr (Name ''np'') ''float32'')]"

definition ObservationMatchingEnv_class :: stmt where
  "ObservationMatchingEnv_class =
     ClassDef ''ObservationMatchingEnv'' [Attr (Name ''gym'') ''Env'']
       [FunctionDef ''__init__'' [Name ''self'', Kw ''num_options'' (IntLit 2)]
          [Assign (Attr (Name ''self'') ''num_options'') (Name ''num_options''),
           Assign (Attr (Name ''self'') ''observation_space'') unit_box,
           Assign (Attr (Name ''self'') ''action_space'') unit_box,
           ExprS (Call (Attr (Name ''self'') ''seed'') [])],
        FunctionDef ''seed'' [Name ''self'', Kw ''seed'' (Const ''None'')]
          [Assign (TupleE [Attr (Name ''self'') ''np_random'', Name ''seed''])
             (Call (Attr (Name ''seeding'') ''np_random'') [Name ''seed'']),
           Return (ListE [Name ''seed''])],
        FunctionDef ''reset'' [Name ''self'']
          [Assign (Attr (Name ''self'') ''state'') self_uniform,
           Return (Attr (Name ''self'') ''state'')],
        FunctionDef ''step'' [Name ''self'', Name ''action'']
          [Assign (Name ''reward'')
             (UnaryOp ''-''
                (Call (Attr (Call (Attr (Name ''np'') ''abs'')
                               [BinOp (Attr (Name ''self'') ''state'') ''-''
                                  (Name ''action'')])
                         ''mean'') [])),
           Assign (Attr (Name ''self'') ''state'') self_uniform,
           Return (TupleE [Attr (Name ''self'') ''state'', Name ''reward'',
                           Const ''False'', DictE [] []])]]"

definition time_limit_500 :: "string \<Rightarrow> expr" where
  "time_limit_500 v =
     Call (Name ''TimeLimit'') [Name v, Kw ''max_episode_steps'' (IntLit 500)]"

definition evaluate_10 :: "expr \<Rightarrow> expr" where
  "evaluate_10 policy = Call (Name ''evaluate_policy'') [policy, Name ''env'', IntLit 10]"

definition custom_env_notebook :: script where
  "custom_env_notebook =
   [[Import ''numpy'' (Some ''np''),
     Import ''gym'' None,
     ImportFrom ''gym.spaces'' ''Box'',
     ImportFrom ''gym.utils'' ''seeding'',
     ObservationMatchingEnv_class],
    [ExprS (Call (Attr (Name ''gym'') ''register'')
       [Kw ''id'' (Str ''custom/ObservationMatching-v0''),
        Kw ''entry_point'' (Name ''ObservationMatchingEnv''),
        Kw ''max_episode_steps'' (IntLit 500)])],
    [ImportFrom ''gym.wrappers'' ''TimeLimit'',
     ImportFrom ''imitation.data'' ''rollout'',
     ImportFrom ''imitation.data.wrappers'' ''RolloutInfoWrapper'',
     ImportFrom ''imitation.util.util'' ''make_vec_env'',
     ImportFrom ''stable_baselines3.common.vec_env'' ''DummyVecEnv'',
     ImportFrom ''stable_baselines3.common.vec_env'' ''SubprocVecEnv'',
     Assign (Name ''env'')
       (Call (Attr (Name ''gym'') ''make'') [Str ''custom/ObservationMatching-v0'']),
     Assign (Name ''venv'')
       (Call (Name ''make_vec_env'')
          [Str ''custom/ObservationMatching-v0'',
           Kw ''rng'' (np_default_rng []),
           Kw ''n_envs'' (IntLit 4),
           Kw ''post_wrappers'' (ListE [rollout_info_wrapper])])],
    [ImportFrom ''gym.wrappers'' ''TimeLimit'',
     ImportFrom ''imitation.data'' ''rollout'',
     ImportFrom ''imitation.data.wrappers'' ''RolloutInfoWrapper'',
     ImportFrom ''stable_baselines3.common.vec_env'' ''DummyVecEnv'',
     Import ''numpy'' (Some ''np''),
     Assign (Name ''env'') (Call (Name ''ObservationMatchingEnv'') []),
     Assign (Name ''env'') (time_limit_500 ''env''),
     FunctionDef ''_make_env'' []
       [ExprS (Str ''Helper function to create a single environment. Put any logic here, but make sure to return a RolloutInfoWrapper.''),
        Assign (Name ''_env'') (Call (Name ''ObservationMatchingEnv'') []),
        Assign (Name ''_env'') (time_limit_500 ''_env''),
        Assign (Name ''_env'') (Call (Name ''RolloutInfoWrapper'') [Name ''_env'']),
        Return (Name ''_env'')],
     Assign (Name ''venv'')
       (Call (Name ''DummyVecEnv'')
          [ListComp (Name ''_make_env'') ''_'' (Call (Name ''range'') [IntLit 4])])],
    [ImportFrom ''stable_baselines3'' ''PPO'',
     ImportFrom ''stable_baselines3.ppo'' ''MlpPolicy'',
     ImportFrom ''stable_baselines3.common.evaluation'' ''evaluate_policy'',
     ImportFrom ''gym.wrappers'' ''TimeLimit'',
     Assign (Name ''expert'')
       (Call (Name ''PPO'')
          [Kw ''policy'' (Name ''MlpPolicy''),
           Kw ''env'' (Name ''env''),
           Kw ''seed'' (IntLit 0),
           Kw ''batch_size'' (IntLit 64),
           Kw ''ent_coef'' (Const ''0.0''),
           Kw ''learning_rate'' (Const ''0.0003''),
           Kw ''n_epochs'' (IntLit 10),
           Kw ''n_steps'' (IntLit 64)]),
     Assign (TupleE [Name ''reward'', Name ''_'']) (evaluate_10 (Name ''expert'')),
     ExprS (Call (Name ''print'') [FStr [Str ''Reward before training: '', Name ''reward'']]),
     ExprS (Call (Attr (Name ''expert'') ''learn'') [IntLit 10000]),
     Assign (TupleE [Name ''reward'', Name ''_'']) (evaluate_10 (Name ''expert'')),
     ExprS (Call (Name ''print'') [FStr [Str ''Expert reward: '', Name ''reward'']])],
    [Assign (Name ''rng'') (np_default_rng []),
     Assign (Name ''rollouts'')
       (Call (Attr (Name ''rollout'') ''rollout'')
          [Name ''expert'',
           Name ''venv'',
           Call (Attr (Name ''rollout'') ''make_sample_until'')
             [Kw ''min_timesteps'' (Const ''None''), Kw ''min_episodes'' (IntLit 50)],
           Kw ''rng'' (Name ''rng'')]),
     Assign (Name ''transitions'')
       (Call (Attr (Name ''rollout'') ''flatten_trajectories'') [Name ''rollouts''])],
    [ImportFrom ''imitation.algorithms'' ''bc'',
     Assign (Name ''bc_trainer'')
       (Call (Attr (Name ''bc'') ''BC'')
          [Kw ''observation_space'' (Attr (Name ''env'') ''observation_space''),
           Kw ''action_space'' (Attr (Name ''env'') ''action_space''),
           Kw ''demonstrations'' (Name ''transitions''),
           Kw ''rng'' (Name ''rng'')])],
    [Assign (TupleE [Name ''reward_before_training'', Name ''_''])
       (evaluate_10 (Attr (Name ''bc_trainer'') ''policy'')),
     ExprS (Call (Name ''print'')
       [FStr [Str ''Reward before training: '', Name ''reward_before_training'']])],
    [ExprS (Call (Attr (Name ''bc_trainer'') ''train'') [Kw ''n_epochs'' (IntLit 1)]),
     Assign (TupleE [Name ''reward_after_training'', Name ''_''])
       (evaluate_10 (Attr (Name ''bc_trainer'') ''policy'')),
     ExprS (Call (Name ''print'')
       [FStr [Str ''Reward after training: '', Name ''reward_after_training'']])]]"

definition tutorials :: "script list" where
  "tutorials = [airl_notebook, sqil_notebook, custom_env_notebook]"

definition all_scripts :: "script list" where
  "all_scripts = tutorials @ [airl_doc_example]"

subsection \<open>Reading a script\<close>

definition statements :: "script \<Rightarrow> stmt list" where
  "statements sc = concat sc"

text \<open>The dotted name of a callee, \<^verbatim>\<open>rollout.rollout\<close>, and the name it starts from.\<close>

fun dotted :: "expr \<Rightarrow> string" where
  "dotted (Name n) = n"
| "dotted (Attr e a) = dotted e @ ''.'' @ a"
| "dotted _ = []"

fun root :: "expr \<Rightarrow> string" where
  "root (Name n) = n"
| "root (Attr e a) = root e"
| "root (Call f args) = root f"
| "root (Subscript e i) = root e"
| "root _ = []"

text \<open>Every expression that occurs in an expression, itself first.\<close>

fun sub_exprs :: "expr \<Rightarrow> expr list" where
  "sub_exprs (Attr e a) = Attr e a # sub_exprs e"
| "sub_exprs (Call f args) = Call f args # sub_exprs f @ concat (map sub_exprs args)"
| "sub_exprs (Kw k e) = Kw k e # sub_exprs e"
| "sub_exprs (Lambda ps e) = Lambda ps e # sub_exprs e"
| "sub_exprs (ListE es) = ListE es # concat (map sub_exprs es)"
| "sub_exprs (TupleE es) = TupleE es # concat (map sub_exprs es)"
| "sub_exprs (DictE ks vs) =
     DictE ks vs # concat (map sub_exprs ks) @ concat (map sub_exprs vs)"
| "sub_exprs (ListComp e v it) = ListComp e v it # sub_exprs e @ sub_exprs it"
| "sub_exprs (FStr es) = FStr es # concat (map sub_exprs es)"
| "sub_exprs (Subscript e i) = Subscript e i # sub_exprs e @ sub_exprs i"
| "sub_exprs (BinOp a opr b) = BinOp a opr b # sub_exprs a @ sub_exprs b"
| "sub_exprs (UnaryOp opr e) = UnaryOp opr e # sub_exprs e"
| "sub_exprs e = [e]"

text \<open>Every statement that occurs in a statement, itself first.\<close>

fun sub_stmts :: "stmt \<Rightarrow> stmt list" where
  "sub_stmts (ClassDef n bases body) =
     ClassDef n bases body # concat (map sub_stmts body)"
| "sub_stmts (FunctionDef n ps body) =
     FunctionDef n ps body # concat (map sub_stmts body)"
| "sub_stmts (Try body handlers final) =
     Try body handlers final # concat (map sub_stmts body)
       @ concat (map sub_stmts handlers) @ concat (map sub_stmts final)"
| "sub_stmts s = [s]"

fun own_exprs :: "stmt \<Rightarrow> expr list" where
  "own_exprs (ClassDef n bases body) = bases"
| "own_exprs (FunctionDef n ps body) = ps"
| "own_exprs (Assign t e) = [t, e]"
| "own_exprs (ExprS e) = [e]"
| "own_exprs (Return e) = [e]"
| "own_exprs _ = []"

definition all_stmts :: "script \<Rightarrow> stmt list" where
  "all_stmts sc = concat (map sub_stmts (statements sc))"

definition all_exprs :: "script \<Rightarrow> expr list" where
  "all_exprs sc = concat (map sub_exprs (concat (map own_exprs (all_stmts sc))))"

fun is_call :: "expr \<Rightarrow> bool" where
  "is_call (Call f args) = True"
| "is_call _ = False"

fun kwarg :: "string \<Rightarrow> expr list \<Rightarrow> expr option" where
  "kwarg k [] = None"
| "kwarg k (Kw k' v # args) = (if k = k' then Some v else kwarg k args)"
| "kwarg k (a # args) = kwarg k args"

text \<open>The names a script binds by importing: the alias, or the imported name.\<close>

fun imported_name :: "stmt \<Rightarrow> string option" where
  "imported_name (Import m None) = Some (takeWhile (\<lambda>c. c \<noteq> CHR ''.'') m)"
| "imported_name (Import m (Some a)) = Some a"
| "imported_name (ImportFrom m n) = Some n"
| "imported_name _ = None"

definition imported_names :: "script \<Rightarrow> string list" where
  "imported_names sc = List.map_filter imported_name (all_stmts sc)"



subsection \<open>What a script defines itself\<close>

fun defined_name :: "stmt \<Rightarrow> string option" where
  "defined_name (ClassDef n bases body) = Some n"
| "defined_name (FunctionDef n ps body) = Some n"
| "defined_name _ = None"

definition authored :: "script \<Rightarrow> string list" where
  "authored sc = List.map_filter defined_name (statements sc)"

text \<open>
  A class that derives from an imported one implements that library's interface: the
  class name, its bases and the methods it defines.
\<close>

fun implemented :: "string list \<Rightarrow> stmt \<Rightarrow> (string \<times> string list \<times> string list) option" where
  "implemented ext (ClassDef n bases body) =
     (if list_ex (\<lambda>b. root b \<in> set ext) bases
      then Some (n, map dotted bases, List.map_filter defined_name body) else None)"
| "implemented ext _ = None"

definition implementations :: "script \<Rightarrow> (string \<times> string list \<times> string list) list" where
  "implementations sc = List.map_filter (implemented (imported_names sc)) (all_stmts sc)"

text \<open>
  A call to \<^verbatim>\<open>gym.register\<close> hands the library something to call back: the pair of
  the identifier and the entry point.
\<close>

fun registered :: "expr \<Rightarrow> (expr option \<times> expr option) option" where
  "registered (Call f args) =
     (if dotted f = ''gym.register'' then Some (kwarg ''id'' args, kwarg ''entry_point'' args)
      else None)"
| "registered _ = None"

definition registrations :: "script \<Rightarrow> (expr option \<times> expr option) list" where
  "registrations sc = List.map_filter registered (all_exprs sc)"

text \<open>
  The values a script holds that come from a library: the imported names, and every
  variable assigned from a call whose callee starts from such a value. A call that a
  statement makes when it runs (calls in the body of a definition are not made then) and
  whose callee starts from anything else, the built-ins \<^verbatim>\<open>print\<close> and \<^verbatim>\<open>range\<close>
  apart, is the script's own work.
\<close>

fun targets :: "expr \<Rightarrow> string list" where
  "targets (Name n) = [n]"
| "targets (TupleE es) = concat (map targets es)"
| "targets _ = []"

fun callee :: "expr \<Rightarrow> expr" where
  "callee (Call f args) = f"
| "callee e = e"

definition builtins :: "string list" where
  "builtins = [''print'', ''range'']"

definition calls_of :: "stmt \<Rightarrow> expr list" where
  "calls_of s = filter is_call (concat (map sub_exprs (own_exprs s)))"

fun bind :: "string list \<Rightarrow> stmt \<Rightarrow> string list" where
  "bind ext (Assign t e) =
     (if is_call e \<and> root e \<in> set ext then targets t @ ext
      else filter (\<lambda>x. x \<notin> set (targets t)) ext)"
| "bind ext s = (case imported_name s of Some n \<Rightarrow> n # ext | None \<Rightarrow> ext)"

fun own_calls :: "string list \<Rightarrow> stmt list \<Rightarrow> string list" where
  "own_calls ext [] = []"
| "own_calls ext (s # ss) =
     map dotted
       (filter (\<lambda>f. root f \<notin> set ext \<and> dotted f \<notin> set builtins) (map callee (calls_of s)))
     @ own_calls (bind ext s) ss"

subsection \<open>The stages of a tutorial\<close>

datatype stage =
    ConstructEnv | ExpertPolicy | CollectRollouts | ConstructLearner | TrainingLoop
  | EvaluateLearner

fun rank :: "stage \<Rightarrow> nat" where
  "rank ConstructEnv = 1"
| "rank ExpertPolicy = 2"
| "rank CollectRollouts = 3"
| "rank ConstructLearner = 4"
| "rank TrainingLoop = 5"
| "rank EvaluateLearner = 6"

text \<open>
  Which stage a top-level call belongs to, from its callee, and for \<^verbatim>\<open>PPO\<close> and
  \<^verbatim>\<open>evaluate_policy\<close> from whom it is about: \<^verbatim>\<open>expert = PPO(...)\<close> and
  \<^verbatim>\<open>expert.learn(...)\<close> make the expert, and \<^verbatim>\<open>evaluate_policy(expert, ...)\<close>
  does not evaluate the learner. Loading a dataset of expert trajectories counts as
  collecting rollouts.
\<close>

definition call_stage :: "expr \<Rightarrow> expr \<Rightarrow> expr list \<Rightarrow> stage option" where
  "call_stage t f args =
     (if dotted f \<in> set [''make_vec_env'', ''gym.make'', ''DummyVecEnv'', ''SubprocVecEnv'',
                          ''TimeLimit'', ''ObservationMatchingEnv'']
        then Some ConstructEnv
      else if dotted f = ''load_policy'' \<or> dotted f = ''expert.learn''
              \<or> (dotted f = ''PPO'' \<and> t = Name ''expert'')
        then Some ExpertPolicy
      else if dotted f \<in> set [''rollout.rollout'', ''rollout.flatten_trajectories'',
                               ''datasets.load_dataset'',
                               ''huggingface_utils.TrajectoryDatasetSequence'']
        then Some CollectRollouts
      else if dotted f \<in> set [''PPO'', ''BasicShapedRewardNet'', ''AIRL'', ''sqil.SQIL'',
                               ''bc.BC'']
        then Some ConstructLearner
      else if dotted f \<in> set [''airl_trainer.train'', ''sqil_trainer.train'',
                               ''bc_trainer.train'']
        then Some TrainingLoop
      else if dotted f = ''evaluate_policy'' \<and> map root (take 1 args) \<noteq> [''expert'']
        then Some EvaluateLearner
      else None)"

fun stage_of :: "stmt \<Rightarrow> stage option" where
  "stage_of (Assign t (Call f args)) = call_stage t f args"
| "stage_of (ExprS (Call f args)) = call_stage (TupleE []) f args"
| "stage_of _ = None"

definition stages :: "script \<Rightarrow> stage list" where
  "stages sc = List.map_filter stage_of (statements sc)"

definition in_fixed_order :: "stage list \<Rightarrow> bool" where
  "in_fixed_order tr \<longleftrightarrow> sorted (map rank tr)"

subsection \<open>The reward a tutorial prints\<close>

text \<open>
  What a \<^verbatim>\<open>print\<close> statement shows is followed through the statements in the order
  they run. Three things are kept:
  \<^item> for the variable of each trainer (\<^verbatim>\<open>AIRL\<close>, \<^verbatim>\<open>sqil.SQIL\<close>, \<^verbatim>\<open>bc.BC\<close>), the
    policies its training loop trains: its attribute \<^verbatim>\<open>policy\<close>, and the algorithm
    given to it as \<^verbatim>\<open>gen_algo\<close>, which it trains in place;
  \<^item> the policies whose training loop has been called;
  \<^item> for each variable that holds the first result of an \<^verbatim>\<open>evaluate_policy\<close> call,
    whether that is the mean reward or, for \<^verbatim>\<open>return_episode_rewards=True\<close>, the
    rewards of the episodes, and whether the evaluated policy had been trained then.

  Binding a name again forgets what was known of it.
\<close>

datatype reward_value =
    MeanReward bool       \<comment> \<open>the flag: of a policy whose training loop had been called\<close>
  | EpisodeRewards bool

record flow =
  trains :: "(string \<times> expr list) list"
  trained :: "expr list"
  rewards :: "(string \<times> reward_value) list"

definition trainer_constructors :: "string list" where
  "trainer_constructors = [''AIRL'', ''sqil.SQIL'', ''bc.BC'']"

definition policies_of :: "string \<Rightarrow> expr list \<Rightarrow> expr list" where
  "policies_of trainer args =
     Attr (Name trainer) ''policy''
       # (case kwarg ''gen_algo'' args of Some g \<Rightarrow> [g] | None \<Rightarrow> [])"

fun names_bound :: "stmt \<Rightarrow> string list" where
  "names_bound (Assign t e) = targets t"
| "names_bound (ClassDef n bases body) = [n]"
| "names_bound (FunctionDef n ps body) = [n]"
| "names_bound s = (case imported_name s of Some n \<Rightarrow> [n] | None \<Rightarrow> [])"

definition unbind :: "string list \<Rightarrow> flow \<Rightarrow> flow" where
  "unbind ns fl =
     \<lparr>trains = filter (\<lambda>(t, ps). t \<notin> set ns \<and> list_all (\<lambda>p. root p \<notin> set ns) ps) (trains fl),
      trained = filter (\<lambda>p. root p \<notin> set ns) (trained fl),
      rewards = filter (\<lambda>(v, r). v \<notin> set ns) (rewards fl)\<rparr>"

definition evaluated :: "flow \<Rightarrow> expr list \<Rightarrow> reward_value option" where
  "evaluated fl args =
     (case args of
        [] \<Rightarrow> None
      | p # ps \<Rightarrow>
          Some ((if kwarg ''return_episode_rewards'' args = Some (Const ''True'')
                 then EpisodeRewards else MeanReward) (p \<in> set (trained fl))))"

fun flow_step :: "flow \<Rightarrow> stmt \<Rightarrow> flow" where
  "flow_step fl (Assign t (Call f args)) =
     (let fl' = unbind (targets t) fl in
      if dotted f = ''evaluate_policy'' then
        (case (targets t, evaluated fl args) of
           (v # vs, Some r) \<Rightarrow> fl'\<lparr>rewards := (v, r) # rewards fl'\<rparr>
         | _ \<Rightarrow> fl')
      else if dotted f \<in> set trainer_constructors then
        (case targets t of
           [trainer] \<Rightarrow> fl'\<lparr>trains := (trainer, policies_of trainer args) # trains fl'\<rparr>
         | _ \<Rightarrow> fl')
      else fl')"
| "flow_step fl (ExprS (Call (Attr (Name trainer) m) args)) =
     (if m = ''train'' then
        (case map_of (trains fl) trainer of
           Some ps \<Rightarrow> fl\<lparr>trained := ps @ trained fl\<rparr>
         | None \<Rightarrow> fl)
      else fl)"
| "flow_step fl s = unbind (names_bound s) fl"

text \<open>
  A \<^verbatim>\<open>print\<close> statement shows a mean reward when it is given a variable that holds
  one, by itself or inside an f-string, or \<^verbatim>\<open>np.mean(v)\<close> for a variable \<open>v\<close> of
  per-episode rewards. For each mean reward a statement shows, \<open>shown\<close> tells whether it
  is that of a trained policy.
\<close>

fun name_of :: "expr \<Rightarrow> string option" where
  "name_of (Name n) = Some n"
| "name_of _ = None"

fun shown_means :: "expr \<Rightarrow> (string \<times> bool) list" where
  "shown_means (Name v) = [(v, False)]"
| "shown_means (FStr parts) = map (\<lambda>v. (v, False)) (List.map_filter name_of parts)"
| "shown_means (Call f [Name v]) = (if dotted f = ''np.mean'' then [(v, True)] else [])"
| "shown_means _ = []"

fun printed_means :: "stmt \<Rightarrow> (string \<times> bool) list" where
  "printed_means (ExprS (Call f args)) =
     (if dotted f = ''print'' then concat (map shown_means args) else [])"
| "printed_means _ = []"

definition shown :: "flow \<Rightarrow> stmt \<Rightarrow> bool list" where
  "shown fl s =
     List.map_filter
       (\<lambda>(v, through_mean).
          case map_of (rewards fl) v of
            Some (MeanReward tr) \<Rightarrow> if through_mean then None else Some tr
          | Some (EpisodeRewards tr) \<Rightarrow> if through_mean then Some tr else None
          | None \<Rightarrow> None)
       (printed_means s)"

fun printed_rewards :: "flow \<Rightarrow> stmt list \<Rightarrow> bool list list" where
  "printed_rewards fl [] = []"
| "printed_rewards fl (s # ss) = shown fl s # printed_rewards (flow_step fl s) ss"

text \<open>One entry for each statement of the script, in order.\<close>

definition reward_prints :: "script \<Rightarrow> bool list list" where
  "reward_prints sc =
     printed_rewards \<lparr>trains = [], trained = [], rewards = []\<rparr> (statements sc)"

text \<open>
  The last code cell has a statement that prints the mean reward of a trained policy;
  the last statement of the script is one.
\<close>

definition prints_trained_reward :: "script \<Rightarrow> bool" where
  "prints_trained_reward sc \<longleftrightarrow>
     sc \<noteq> [] \<and>
     list_ex (list_ex (\<lambda>tr. tr)) (drop (length (statements (butlast sc))) (reward_prints sc))"

definition finishes_by_printing_trained_reward :: "script \<Rightarrow> bool" where
  "finishes_by_printing_trained_reward sc \<longleftrightarrow>
     reward_prints sc \<noteq> [] \<and> list_ex (\<lambda>tr. tr) (last (reward_prints sc))"

subsection \<open>Vectorized environments\<close>















text \<open>The episode limits a script passes to \<^verbatim>\<open>gym.register\<close> and \<^verbatim>\<open>TimeLimit\<close>.\<close>

fun episode_limit :: "expr \<Rightarrow> (string \<times> expr option) option" where
  "episode_limit (Call f args) =
     (if dotted f \<in> set [''gym.register'', ''TimeLimit'']
      then Some (dotted f, kwarg ''max_episode_steps'' args) else None)"
| "episode_limit _ = None"

definition episode_limits :: "script \<Rightarrow> (string \<times> expr option) list" where
  "episode_limits sc = List.map_filter episode_limit (all_exprs sc)"

subsection \<open>Running a script\<close>

text \<open>
  A script runs its statements in order. How the interpreter and the libraries carry out
  one statement is a parameter \<open>ev\<close>: from a world \<open>'w\<close> it returns the next world, or the
  exception \<open>'x\<close> raised together with the world as the failing statement left it. Only
  \<^verbatim>\<open>try\<close> handles an exception: its handlers run from the world of the failure, and
  its \<^verbatim>\<open>finally\<close> block runs in either case.
\<close>

fun exec :: "(stmt \<Rightarrow> 'w \<Rightarrow> 'x \<times> 'w + 'w) \<Rightarrow> stmt \<Rightarrow> 'w \<Rightarrow> 'x \<times> 'w + 'w"
  and run :: "(stmt \<Rightarrow> 'w \<Rightarrow> 'x \<times> 'w + 'w) \<Rightarrow> stmt list \<Rightarrow> 'w \<Rightarrow> 'x \<times> 'w + 'w" where
  "exec ev (Try body handlers final) w =
     (case run ev body w of
        Inl (x, w') \<Rightarrow>
          (case run ev handlers w' of
             Inl xw \<Rightarrow> Inl xw
           | Inr w'' \<Rightarrow> run ev final w'')
      | Inr w' \<Rightarrow> run ev final w')"
| "exec ev s w = ev s w"
| "run ev [] w = Inr w"
| "run ev (s # ss) w =
     (case exec ev s w of
        Inl xw \<Rightarrow> Inl xw
      | Inr w' \<Rightarrow> run ev ss w')"

fun is_try :: "stmt \<Rightarrow> bool" where
  "is_try (Try body handlers final) = True"
| "is_try _ = False"

definition handles_errors :: "script \<Rightarrow> bool" where
  "handles_errors sc \<longleftrightarrow> list_ex is_try (all_stmts sc)"

text \<open>An interpreter to run scripts on: the world counts the statements done, and the
  statement that would be number \<open>k\<close> raises.\<close>

definition fails_at :: "nat \<Rightarrow> stmt \<Rightarrow> nat \<Rightarrow> string \<times> nat + nat" where
  "fails_at k s w = (if w = k then Inl (''ConnectionError'', w) else Inr (Suc w))"

subsection \<open>The statements of the specification, as predicates on a script\<close>

text \<open>
  \<open>delegates_everything\<close>: the script defines no class and no function, and every call it
  makes goes to a library. \<open>consumer_only\<close>: no class of the script implements a library's
  interface, and the script registers nothing with a library.
\<close>

definition delegates_everything :: "script \<Rightarrow> bool" where
  "delegates_everything sc \<longleftrightarrow> authored sc = [] \<and> own_calls [] (statements sc) = []"

definition consumer_only :: "script \<Rightarrow> bool" where
  "consumer_only sc \<longleftrightarrow> implementations sc = [] \<and> registrations sc = []"




definition done_flag :: "ndarray \<times> npfloat \<times> bool \<times> info \<Rightarrow> bool" where
  "done_flag out = fst (snd (snd out))"

fun episode_over :: "returned \<Rightarrow> bool" where
  "episode_over (Transition obs reward done i) = done"
| "episode_over _ = False"

section \<open>Properties of the environment\<close>

lemma init_fields:
  assumes "init lib n e = Inr env"
  shows "num_options env = n" and "state env = None"
    and "observation_space env = \<lparr>low = 0, high = 1, shape = [n], dtype = Float32\<rparr>"
    and "action_space env = \<lparr>low = 0, high = 1, shape = [n], dtype = Float32\<rparr>"
    and "np_random env = fst (np_random_of_entropy lib e)"
  using assms
  by (auto simp: init_def Box_init_def split: if_splits prod.splits)

lemma seed_fields:
  assumes "seed lib env sd e = Inr (r, env')"
  shows "num_options env' = num_options env" and "state env' = state env"
    and "observation_space env' = observation_space env"
    and "action_space env' = action_space env"
  using assms
  by (auto simp: seed_def split: option.splits sum.splits prod.splits)

lemma reset_fields:
  assumes "reset lib env = Inr (obs, env')"
  shows "num_options env' = num_options env" and "state env' = Some obs"
    and "observation_space env' = observation_space env"
    and "action_space env' = action_space env"
    and "\<exists>g. uniform lib (np_random env) (num_options env) = Inr (obs, g)"
  using assms
  by (auto simp: reset_def split: sum.splits prod.splits)

lemma step_fields:
  assumes "step lib env a = Inr ((obs, r, d, i), env')"
  shows "num_options env' = num_options env" and "state env' = Some obs"
    and "observation_space env' = observation_space env"
    and "action_space env' = action_space env"
    and "\<exists>g. uniform lib (np_random env) (num_options env) = Inr (obs, g)"
    and "d = False" and "i = []"
  using assms
  by (auto simp: step_def Let_def split: option.splits sum.splits prod.splits)

text \<open>The two spaces are set by the constructor and never assigned again.\<close>

lemma reachable_spaces:
  "reachable lib env \<Longrightarrow>
     observation_space env = \<lparr>low = 0, high = 1, shape = [num_options env], dtype = Float32\<rparr> \<and>
     action_space env = \<lparr>low = 0, high = 1, shape = [num_options env], dtype = Float32\<rparr>"
proof (induction rule: reachable.induct)
  case (r_init n e env)
  then show ?case by (simp add: init_fields)
next
  case (r_seed env sd e r env')
  then show ?case by (simp add: seed_fields)
next
  case (r_reset env obs env')
  then show ?case by (simp add: reset_fields)
next
  case (r_step env act out env')
  then show ?case by (cases out) (simp add: step_fields)
qed

text \<open>
  Whenever the attribute \<^verbatim>\<open>state\<close> exists, it holds a draw of the generator, as
  the generator returned it.
\<close>

lemma reachable_state:
  assumes "uniform_contract lib"
  shows "reachable lib env \<Longrightarrow> state env = Some a \<Longrightarrow>
           dtype_of a = Float64 \<and> unit_vector (num_options env) (entries a)"
proof (induction arbitrary: a rule: reachable.induct)
  case (r_init n e env)
  then show ?case by (simp add: init_fields)
next
  case (r_seed env sd e r env')
  then show ?case by (simp add: seed_fields)
next
  case (r_reset env obs env')
  from reset_fields[OF r_reset.hyps(2)] r_reset.prems assms
  show ?case by (auto simp: uniform_contract_def)
next
  case (r_step env act out env')
  obtain obs r d i where out: "out = (obs, r, d, i)" by (cases out) auto
  from step_fields[OF r_step.hyps(2)[unfolded out]] r_step.prems assms
  show ?case by (auto simp: uniform_contract_def)
qed

lemma unit_vector_shape_and_bounds:
  "unit_vector n (entries a) \<Longrightarrow>
     shape_and_bounds \<lparr>low = 0, high = 1, shape = [n], dtype = dt\<rparr> a"
  by (auto simp: unit_vector_def shape_and_bounds_def list_all_iff)

lemma float64_outside_float32_box:
  "dtype_of a = Float64 \<Longrightarrow> \<not> contains \<lparr>low = lo, high = hi, shape = shp, dtype = Float32\<rparr> a"
  by (simp add: contains_def)

text \<open>What a returned observation is, in any object a caller can hold.\<close>

lemma returned_observation:
  assumes "uniform_contract lib" and "reachable lib env'" and "state env' = Some obs"
  shows "unit_vector (num_options env') (entries obs) \<and>
         shape_and_bounds (observation_space env') obs \<and>
         \<not> contains (observation_space env') obs"
proof -
  from reachable_state[OF assms] have f: "dtype_of obs = Float64"
    and u: "unit_vector (num_options env') (entries obs)"
    by simp_all
  from reachable_spaces[OF assms(2)] unit_vector_shape_and_bounds[OF u]
  have "shape_and_bounds (observation_space env') obs"
    by simp
  moreover from reachable_spaces[OF assms(2)] float64_outside_float32_box[OF f]
  have "\<not> contains (observation_space env') obs"
    by simp
  ultimately show ?thesis using u by simp
qed

lemma counter_uniform_contract: "uniform_contract counter_seeding"
  by (auto simp: uniform_contract_def counter_seeding_def unit_vector_def list_all_iff
      split: if_splits)

lemma upt_2: "[0..<2] = [0, Suc 0]"
  by (simp add: upt_rec)

lemma counter_init: "init counter_seeding 2 e =
    Inr \<lparr>num_options = 2, observation_space = \<lparr>low = 0, high = 1, shape = [2], dtype = Float32\<rparr>,
         action_space = \<lparr>low = 0, high = 1, shape = [2], dtype = Float32\<rparr>, np_random = e, state = None\<rparr>"
  by (simp add: init_def Box_init_def counter_seeding_def)

lemma counter_reset_5: "reset counter_seeding
     \<lparr>num_options = 2, observation_space = \<lparr>low = 0, high = 1, shape = [2], dtype = Float32\<rparr>,
      action_space = \<lparr>low = 0, high = 1, shape = [2], dtype = Float32\<rparr>, np_random = 5, state = None\<rparr>
   = Inr (Array Float64 [5 / 8, 3 / 4],
      \<lparr>num_options = 2, observation_space = \<lparr>low = 0, high = 1, shape = [2], dtype = Float32\<rparr>,
       action_space = \<lparr>low = 0, high = 1, shape = [2], dtype = Float32\<rparr>, np_random = 7,
       state = Some (Array Float64 [5 / 8, 3 / 4])\<rparr>)"
  by (simp add: reset_def counter_seeding_def upt_2)

lemma counter_step_7: "step counter_seeding
     \<lparr>num_options = 2, observation_space = \<lparr>low = 0, high = 1, shape = [2], dtype = Float32\<rparr>,
      action_space = \<lparr>low = 0, high = 1, shape = [2], dtype = Float32\<rparr>, np_random = 7,
      state = Some (Array Float64 [5 / 8, 3 / 4])\<rparr> [1 / 2, 1 / 2]
   = Inr ((Array Float64 [7 / 8, 0], Fin (- (3 / 16)), False, []),
      \<lparr>num_options = 2, observation_space = \<lparr>low = 0, high = 1, shape = [2], dtype = Float32\<rparr>,
       action_space = \<lparr>low = 0, high = 1, shape = [2], dtype = Float32\<rparr>, np_random = 9,
       state = Some (Array Float64 [7 / 8, 0])\<rparr>)"
  by (simp add: step_def np_sub_def np_mean_def counter_seeding_def upt_2)

text \<open>
  C7 says that the state, once a \<^verbatim>\<open>reset\<close> has assigned it, is a vector of exactly
  \<^verbatim>\<open>num_options\<close> entries, each in the half-open interval from 0 to 1, that
  \<^verbatim>\<open>reset\<close> establishes this and \<^verbatim>\<open>step\<close> keeps it, and that every observation
  returned therefore lies in the declared observation space. Under the contract of
  \<^verbatim>\<open>uniform\<close> the code does the first and not the last: the observation that
  \<^verbatim>\<open>reset\<close> and \<^verbatim>\<open>step\<close> return is the new state, with the declared shape and
  within the declared bounds, but it is the \<^verbatim>\<open>float64\<close> array of the draw, returned
  as it is, and the space is declared with \<^verbatim>\<open>dtype=np.float32\<close>, so the space does
  not contain it.
\<close>

theorem observations_outside_declared_space:
  assumes "uniform_contract lib" and "reachable lib env"
  shows "(\<forall>a. state env = Some a \<longrightarrow> unit_vector (num_options env) (entries a)) \<and>
         (\<forall>obs env'. reset lib env = Inr (obs, env') \<longrightarrow>
            state env' = Some obs \<and> unit_vector (num_options env') (entries obs) \<and>
            shape_and_bounds (observation_space env') obs \<and>
            \<not> contains (observation_space env') obs) \<and>
         (\<forall>act obs r d i env'. step lib env act = Inr ((obs, r, d, i), env') \<longrightarrow>
            state env' = Some obs \<and> unit_vector (num_options env') (entries obs) \<and>
            shape_and_bounds (observation_space env') obs \<and>
            \<not> contains (observation_space env') obs)"
proof (intro conjI allI impI)
  fix a assume "state env = Some a"
  with reachable_state[OF assms] show "unit_vector (num_options env) (entries a)"
    by simp
next
  fix obs env' assume r: "reset lib env = Inr (obs, env')"
  then show st: "state env' = Some obs" by (rule reset_fields)
  from assms(2) r have re: "reachable lib env'" by (rule r_reset)
  note ro = returned_observation[OF assms(1) re st]
  from ro show "unit_vector (num_options env') (entries obs)" by simp
  from ro show "shape_and_bounds (observation_space env') obs" by simp
  from ro show "\<not> contains (observation_space env') obs" by simp
next
  fix act obs r d i env' assume s: "step lib env act = Inr ((obs, r, d, i), env')"
  then show st: "state env' = Some obs" by (rule step_fields)
  from assms(2) s have re: "reachable lib env'" by (rule r_step)
  note ro = returned_observation[OF assms(1) re st]
  from ro show "unit_vector (num_options env') (entries obs)" by simp
  from ro show "shape_and_bounds (observation_space env') obs" by simp
  from ro show "\<not> contains (observation_space env') obs" by simp
qed

text \<open>
  On the counter generator: the instance constructed with \<^verbatim>\<open>num_options=2\<close> and
  entropy 5 can be held, its \<^verbatim>\<open>reset\<close> returns the \<^verbatim>\<open>float64\<close> array
  \<open>[5/8, 3/4]\<close>, and the declared space has the shape and the bounds for it and does
  not contain it.
\<close>

theorem observations_outside_declared_space_witness:
  "uniform_contract counter_seeding \<and>
   reachable counter_seeding
     \<lparr>num_options = 2,
      observation_space = \<lparr>low = 0, high = 1, shape = [2], dtype = Float32\<rparr>,
      action_space = \<lparr>low = 0, high = 1, shape = [2], dtype = Float32\<rparr>,
      np_random = (5::nat), state = None\<rparr> \<and>
   reset counter_seeding
     \<lparr>num_options = 2,
      observation_space = \<lparr>low = 0, high = 1, shape = [2], dtype = Float32\<rparr>,
      action_space = \<lparr>low = 0, high = 1, shape = [2], dtype = Float32\<rparr>,
      np_random = (5::nat), state = None\<rparr>
     = Inr (Array Float64 [5 / 8, 3 / 4],
        \<lparr>num_options = 2,
         observation_space = \<lparr>low = 0, high = 1, shape = [2], dtype = Float32\<rparr>,
         action_space = \<lparr>low = 0, high = 1, shape = [2], dtype = Float32\<rparr>,
         np_random = (7::nat), state = Some (Array Float64 [5 / 8, 3 / 4])\<rparr>) \<and>
   unit_vector 2 [5 / 8, 3 / 4] \<and>
   shape_and_bounds \<lparr>low = 0, high = 1, shape = [2], dtype = Float32\<rparr>
     (Array Float64 [5 / 8, 3 / 4]) \<and>
   \<not> contains \<lparr>low = 0, high = 1, shape = [2], dtype = Float32\<rparr>
     (Array Float64 [5 / 8, 3 / 4])"
proof -
  let ?B = "\<lparr>low = 0, high = 1, shape = [2], dtype = Float32\<rparr>"
  let ?e0 = "\<lparr>num_options = 2, observation_space = ?B, action_space = ?B,
              np_random = (5::nat), state = None\<rparr>"
  let ?e1 = "\<lparr>num_options = 2, observation_space = ?B, action_space = ?B,
              np_random = (7::nat), state = Some (Array Float64 [5 / 8, 3 / 4])\<rparr>"
  have c: "uniform_contract counter_seeding"
    by (rule counter_uniform_contract)
  have "init counter_seeding 2 5 = Inr ?e0"
    by (rule counter_init)
  then have r0: "reachable counter_seeding ?e0"
    by (rule r_init)
  note r = counter_reset_5
  from observations_outside_declared_space [OF c r0]
  have "\<forall>obs env'. reset counter_seeding ?e0 = Inr (obs, env') \<longrightarrow>
      unit_vector (num_options env') (entries obs) \<and>
      shape_and_bounds (observation_space env') obs \<and>
      \<not> contains (observation_space env') obs"
    by blast
  with r have "unit_vector (num_options ?e1) (entries (Array Float64 [5 / 8, 3 / 4])) \<and>
      shape_and_bounds (observation_space ?e1) (Array Float64 [5 / 8, 3 / 4]) \<and>
      \<not> contains (observation_space ?e1) (Array Float64 [5 / 8, 3 / 4])"
    by blast
  then have "unit_vector 2 [5 / 8, 3 / 4] \<and>
      shape_and_bounds ?B (Array Float64 [5 / 8, 3 / 4]) \<and>
      \<not> contains ?B (Array Float64 [5 / 8, 3 / 4])"
    by simp
  with c r0 r show ?thesis by simp
qed

lemma drive_never_over:
  "r \<in> set (drive lib env cs) \<Longrightarrow> \<not> episode_over r"
proof (induction cs arbitrary: env)
  case Nil
  then show ?case by simp
next
  case (Cons c cs)
  show ?case
  proof (cases c)
    case Reset
    with Cons show ?thesis
      by (auto split: sum.splits)
  next
    case (Step a)
    with Cons show ?thesis
      by (auto split: sum.splits dest: step_fields(6))
  qed
qed

lemma script_limits:
  "episode_limits custom_env_notebook =
     [(''gym.register'', Some (IntLit 500)), (''TimeLimit'', Some (IntLit 500)),
      (''TimeLimit'', Some (IntLit 500))]"
  by code_simp

text \<open>
  C8. Whatever the state and the action, a \<^verbatim>\<open>step\<close> that returns returns the flag
  \<^verbatim>\<open>done\<close> as \<^verbatim>\<open>False\<close>, so no sequence of calls ever sees the environment end an
  episode. What ends one is outside the class: the notebook registers the class with
  \<^verbatim>\<open>max_episode_steps=500\<close> and wraps each instance it constructs itself in
  \<^verbatim>\<open>TimeLimit(..., max_episode_steps=500)\<close>. (\<^verbatim>\<open>TimeLimit\<close> itself is Gym's code.)
\<close>

theorem step_never_done:
  "(\<forall>out env'. step lib env a = Inr (out, env') \<longrightarrow> done_flag out = False) \<and>
   (\<forall>r \<in> set (drive lib env cs). \<not> episode_over r) \<and>
   episode_limits custom_env_notebook =
     [(''gym.register'', Some (IntLit 500)), (''TimeLimit'', Some (IntLit 500)),
      (''TimeLimit'', Some (IntLit 500))]"
proof (intro conjI allI impI ballI)
  fix out env' assume s: "step lib env a = Inr (out, env')"
  obtain obs r d i where out: "out = (obs, r, d, i)" by (cases out) auto
  from s[unfolded out] have "d = False" by (rule step_fields)
  with out show "done_flag out = False" by (simp add: done_flag_def)
next
  fix r assume "r \<in> set (drive lib env cs)"
  then show "\<not> episode_over r" by (rule drive_never_over)
next
  show "episode_limits custom_env_notebook =
     [(''gym.register'', Some (IntLit 500)), (''TimeLimit'', Some (IntLit 500)),
      (''TimeLimit'', Some (IntLit 500))]"
    by (rule script_limits)
qed

theorem step_never_done_witness:
  "step counter_seeding
     \<lparr>num_options = 2, observation_space = \<lparr>low = 0, high = 1, shape = [2], dtype = Float32\<rparr>,
      action_space = \<lparr>low = 0, high = 1, shape = [2], dtype = Float32\<rparr>, np_random = (7::nat),
      state = Some (Array Float64 [5 / 8, 3 / 4])\<rparr> [1 / 2, 1 / 2]
     = Inr ((Array Float64 [7 / 8, 0], Fin (- (3 / 16)), False, []),
        \<lparr>num_options = 2, observation_space = \<lparr>low = 0, high = 1, shape = [2], dtype = Float32\<rparr>,
         action_space = \<lparr>low = 0, high = 1, shape = [2], dtype = Float32\<rparr>, np_random = (9::nat),
         state = Some (Array Float64 [7 / 8, 0])\<rparr>) \<and>
   done_flag (Array Float64 [7 / 8, 0], Fin (- (3 / 16)), False, []) = False \<and>
   Transition (Array Float64 [7 / 8, 0]) (Fin (- (3 / 16))) False []
     \<in> set (drive counter_seeding
         \<lparr>num_options = 2, observation_space = \<lparr>low = 0, high = 1, shape = [2], dtype = Float32\<rparr>,
          action_space = \<lparr>low = 0, high = 1, shape = [2], dtype = Float32\<rparr>, np_random = (5::nat),
          state = None\<rparr>
         [Reset, Step [1 / 2, 1 / 2]]) \<and>
   \<not> episode_over (Transition (Array Float64 [7 / 8, 0]) (Fin (- (3 / 16))) False [])"
proof -
  let ?B = "\<lparr>low = 0, high = 1, shape = [2], dtype = Float32\<rparr>"
  let ?e0 = "\<lparr>num_options = 2, observation_space = ?B, action_space = ?B,
              np_random = (5::nat), state = None\<rparr>"
  let ?e1 = "\<lparr>num_options = 2, observation_space = ?B, action_space = ?B,
              np_random = (7::nat), state = Some (Array Float64 [5 / 8, 3 / 4])\<rparr>"
  let ?t = "Transition (Array Float64 [7 / 8, 0]) (Fin (- (3 / 16))) False []"
  note s = counter_step_7
  have m: "?t \<in> set (drive counter_seeding ?e0 [Reset, Step [1 / 2, 1 / 2]])"
    by (simp add: counter_reset_5 counter_step_7)
  from step_never_done [where lib = counter_seeding and env = ?e1 and a = "[1 / 2, 1 / 2]"] s
  have d: "done_flag (Array Float64 [7 / 8, 0], Fin (- (3 / 16)), False, []) = False"
    by blast
  from step_never_done [where lib = counter_seeding and env = ?e0
      and cs = "[Reset, Step [1 / 2, 1 / 2]]"] m
  have o: "\<not> episode_over ?t"
    by blast
  from s d m o show ?thesis by simp
qed

text \<open>
  C9. Two instances constructed with the same \<^verbatim>\<open>num_options\<close>, whatever entropy each
  constructor drew, and then seeded by \<^verbatim>\<open>seed\<close> with the same seed that is not
  \<^verbatim>\<open>None\<close>, return the same seed list and, driven by the same sequence of
  \<^verbatim>\<open>reset\<close> and \<^verbatim>\<open>step\<close> calls with the same actions, return the same observations
  and rewards (and raise the same exceptions) at every call.
\<close>

theorem seeded_instances_agree:
  assumes "init lib n e1 = Inr a" and "init lib n e2 = Inr b"
    and "seed lib a (Some s) e1' = Inr (ra, a')"
    and "seed lib b (Some s) e2' = Inr (rb, b')"
  shows "ra = rb \<and> drive lib a' cs = drive lib b' cs"
proof -
  obtain g s' where g: "np_random_of_seed lib s = Inr (g, s')"
    using assms(3) by (auto simp: seed_def split: sum.splits)
  have a': "a' = a\<lparr>np_random := g\<rparr>" and ra: "ra = [s']"
    using assms(3) g by (auto simp: seed_def)
  have b': "b' = b\<lparr>np_random := g\<rparr>" and rb: "rb = [s']"
    using assms(4) g by (auto simp: seed_def)
  have "a\<lparr>np_random := g\<rparr> = b\<lparr>np_random := g\<rparr>"
    using init_fields[OF assms(1)] init_fields[OF assms(2)] by simp
  with a' b' ra rb show ?thesis by simp
qed

text \<open>
  On the counter generator: the constructors draw entropy 5 and 11, so the two fresh
  instances differ; both are then seeded with 3, and either returns the same to a step
  before any reset, a reset, a step, and a step with an action of the wrong length.
\<close>

theorem seeded_instances_agree_witness:
  "init counter_seeding 2 5 =
     Inr \<lparr>num_options = 2, observation_space = \<lparr>low = 0, high = 1, shape = [2], dtype = Float32\<rparr>,
          action_space = \<lparr>low = 0, high = 1, shape = [2], dtype = Float32\<rparr>, np_random = (5::nat),
          state = None\<rparr> \<and>
   init counter_seeding 2 11 =
     Inr \<lparr>num_options = 2, observation_space = \<lparr>low = 0, high = 1, shape = [2], dtype = Float32\<rparr>,
          action_space = \<lparr>low = 0, high = 1, shape = [2], dtype = Float32\<rparr>, np_random = (11::nat),
          state = None\<rparr> \<and>
   seed counter_seeding
     \<lparr>num_options = 2, observation_space = \<lparr>low = 0, high = 1, shape = [2], dtype = Float32\<rparr>,
      action_space = \<lparr>low = 0, high = 1, shape = [2], dtype = Float32\<rparr>, np_random = (5::nat),
      state = None\<rparr> (Some 3) 20
     = Inr ([3],
        \<lparr>num_options = 2, observation_space = \<lparr>low = 0, high = 1, shape = [2], dtype = Float32\<rparr>,
         action_space = \<lparr>low = 0, high = 1, shape = [2], dtype = Float32\<rparr>, np_random = (3::nat),
         state = None\<rparr>) \<and>
   seed counter_seeding
     \<lparr>num_options = 2, observation_space = \<lparr>low = 0, high = 1, shape = [2], dtype = Float32\<rparr>,
      action_space = \<lparr>low = 0, high = 1, shape = [2], dtype = Float32\<rparr>, np_random = (11::nat),
      state = None\<rparr> (Some 3) 21
     = Inr ([3],
        \<lparr>num_options = 2, observation_space = \<lparr>low = 0, high = 1, shape = [2], dtype = Float32\<rparr>,
         action_space = \<lparr>low = 0, high = 1, shape = [2], dtype = Float32\<rparr>, np_random = (3::nat),
         state = None\<rparr>) \<and>
   drive counter_seeding
     \<lparr>num_options = 2, observation_space = \<lparr>low = 0, high = 1, shape = [2], dtype = Float32\<rparr>,
      action_space = \<lparr>low = 0, high = 1, shape = [2], dtype = Float32\<rparr>, np_random = (3::nat),
      state = None\<rparr>
     [Step [0, 0], Reset, Step [1 / 2, 1 / 2], Step [0, 0, 0]]
     = [Raised AttributeError, Observation (Array Float64 [3 / 8, 1 / 2]),
        Transition (Array Float64 [5 / 8, 3 / 4]) (Fin (- (1 / 16))) False [], Raised ValueError]"
proof -
  let ?B = "\<lparr>low = 0, high = 1, shape = [2], dtype = Float32\<rparr>"
  let ?a = "\<lparr>num_options = 2, observation_space = ?B, action_space = ?B,
             np_random = (5::nat), state = None\<rparr>"
  let ?b = "\<lparr>num_options = 2, observation_space = ?B, action_space = ?B,
             np_random = (11::nat), state = None\<rparr>"
  let ?c = "\<lparr>num_options = 2, observation_space = ?B, action_space = ?B,
             np_random = (3::nat), state = None\<rparr>"
  let ?cs = "[Step [0, 0], Reset, Step [1 / 2, 1 / 2], Step [0, 0, 0]]"
  let ?out = "[Raised AttributeError, Observation (Array Float64 [3 / 8, 1 / 2]),
               Transition (Array Float64 [5 / 8, 3 / 4]) (Fin (- (1 / 16))) False [], Raised ValueError]"
  have ia: "init counter_seeding 2 5 = Inr ?a" and ib: "init counter_seeding 2 11 = Inr ?b"
    by (simp_all add: counter_init)
  have sa: "seed counter_seeding ?a (Some 3) 20 = Inr ([3], ?c)"
    and sb: "seed counter_seeding ?b (Some 3) 21 = Inr ([3], ?c)"
    by (simp_all add: seed_def counter_seeding_def)
  have da: "drive counter_seeding ?c ?cs = ?out"
    by (simp add: step_def reset_def np_sub_def np_mean_def counter_seeding_def upt_2)
  from seeded_instances_agree [OF ia ib sa sb, of ?cs] da
  have "drive counter_seeding ?c ?cs = ?out"
    by simp
  with ia ib sa sb show ?thesis
    by simp
qed

section \<open>Properties of the scripts\<close>

lemma airl_notebook_delegates: "delegates_everything airl_notebook"
  by code_simp

lemma sqil_notebook_delegates: "delegates_everything sqil_notebook"
  by code_simp

lemma airl_doc_example_delegates: "delegates_everything airl_doc_example"
  by code_simp

lemma custom_env_authored:
  "authored custom_env_notebook = [''ObservationMatchingEnv'', ''_make_env'']"
  by code_simp

lemma custom_env_own_calls:
  "own_calls [] (statements custom_env_notebook) = [''ObservationMatchingEnv'']"
  by code_simp

text \<open>
  C1, as the specification states it, fails: the notebook \<^verbatim>\<open>10_train_custom_env\<close>
  defines the environment \<^verbatim>\<open>ObservationMatchingEnv\<close> itself.
\<close>

theorem delegates_everything_counterexample:
  "\<not> delegates_everything custom_env_notebook"
  by (simp add: delegates_everything_def custom_env_authored)

text \<open>
  C1, amended. The two other notebooks and the documentation example define no class and
  no function, and every call they make goes to an imported library or to a value that
  came from one. The notebook \<^verbatim>\<open>10_train_custom_env\<close> defines the environment class
  \<^verbatim>\<open>ObservationMatchingEnv\<close> and the helper \<^verbatim>\<open>_make_env\<close>; constructing that class
  is the only call at its top level that does not go to a library.
\<close>

theorem authored_only_in_custom_env:
  "delegates_everything airl_notebook \<and>
   delegates_everything sqil_notebook \<and>
   delegates_everything airl_doc_example \<and>
   authored custom_env_notebook = [''ObservationMatchingEnv'', ''_make_env''] \<and>
   own_calls [] (statements custom_env_notebook) = [''ObservationMatchingEnv'']"
  by (simp only: airl_notebook_delegates sqil_notebook_delegates airl_doc_example_delegates
      custom_env_authored custom_env_own_calls simp_thms)

lemma airl_notebook_consumer: "consumer_only airl_notebook"
  by code_simp

lemma sqil_notebook_consumer: "consumer_only sqil_notebook"
  by code_simp

lemma airl_doc_example_consumer: "consumer_only airl_doc_example"
  by code_simp

lemma custom_env_implementations:
  "implementations custom_env_notebook =
     [(''ObservationMatchingEnv'', [''gym.Env''], [''__init__'', ''seed'', ''reset'', ''step''])]"
  by code_simp

lemma custom_env_registrations:
  "registrations custom_env_notebook =
     [(Some (Str ''custom/ObservationMatching-v0''), Some (Name ''ObservationMatchingEnv''))]"
  by code_simp

text \<open>
  C2, as the specification states it, fails: the notebook \<^verbatim>\<open>10_train_custom_env\<close>
  implements \<^verbatim>\<open>gym.Env\<close> and registers the implementation.
\<close>

theorem consumer_only_counterexample:
  "\<not> consumer_only custom_env_notebook"
  by (simp add: consumer_only_def custom_env_implementations)

text \<open>
  C2, amended. The two other notebooks and the documentation example implement no
  interface of a library and register nothing. The notebook \<^verbatim>\<open>10_train_custom_env\<close>
  implements \<^verbatim>\<open>gym.Env\<close> as \<^verbatim>\<open>ObservationMatchingEnv\<close>, with its own
  \<^verbatim>\<open>__init__\<close>, \<^verbatim>\<open>seed\<close>, \<^verbatim>\<open>reset\<close> and \<^verbatim>\<open>step\<close>, and registers it with
  \<^verbatim>\<open>gym.register\<close> as the entry point of \<^verbatim>\<open>custom/ObservationMatching-v0\<close>.
\<close>

theorem provider_only_in_custom_env:
  "consumer_only airl_notebook \<and>
   consumer_only sqil_notebook \<and>
   consumer_only airl_doc_example \<and>
   implementations custom_env_notebook =
     [(''ObservationMatchingEnv'', [''gym.Env''],
       [''__init__'', ''seed'', ''reset'', ''step''])] \<and>
   registrations custom_env_notebook =
     [(Some (Str ''custom/ObservationMatching-v0''), Some (Name ''ObservationMatchingEnv''))]"
  by (simp only: airl_notebook_consumer sqil_notebook_consumer airl_doc_example_consumer
      custom_env_implementations custom_env_registrations simp_thms)

lemma airl_notebook_stages:
  "stages airl_notebook =
     [ConstructEnv, ExpertPolicy, CollectRollouts, ConstructLearner, ConstructLearner,
      ConstructLearner, EvaluateLearner, TrainingLoop, EvaluateLearner]"
  by code_simp

lemma airl_doc_example_stages:
  "stages airl_doc_example =
     [ConstructEnv, ExpertPolicy, CollectRollouts, ConstructLearner, ConstructLearner,
      ConstructLearner, EvaluateLearner, TrainingLoop, EvaluateLearner]"
  by code_simp

lemma sqil_notebook_stages:
  "stages sqil_notebook =
     [CollectRollouts, CollectRollouts, ConstructEnv, ConstructLearner, EvaluateLearner,
      TrainingLoop, EvaluateLearner]"
  by code_simp

lemma custom_env_notebook_stages:
  "stages custom_env_notebook =
     [ConstructEnv, ConstructEnv, ConstructEnv, ConstructEnv, ConstructEnv, ExpertPolicy,
      ExpertPolicy, CollectRollouts, CollectRollouts, ConstructLearner, EvaluateLearner,
      TrainingLoop, EvaluateLearner]"
  by code_simp

text \<open>
  C3, as the specification states it, fails: the notebook \<^verbatim>\<open>8_train_sqil\<close> loads
  its expert trajectories before it constructs its environment (and in every script the
  learner is evaluated once before the training loop is called).
\<close>

theorem fixed_order_counterexample:
  "\<not> in_fixed_order (stages sqil_notebook)"
  by (simp add: in_fixed_order_def sqil_notebook_stages)

text \<open>
  C3, amended. With repeated stages written once: the AIRL notebook, the AIRL
  documentation example and the custom-environment notebook construct the environment,
  then load or train the expert policy, then collect rollouts; the SQIL notebook has no
  expert policy and loads the expert trajectories first, then constructs the environment.
  From there on all four do the same: construct the learner, evaluate it untrained, call
  the training loop, evaluate it again.
\<close>

theorem stages_of_the_scripts:
  "remdups_adj (stages airl_notebook) =
     [ConstructEnv, ExpertPolicy, CollectRollouts, ConstructLearner, EvaluateLearner,
      TrainingLoop, EvaluateLearner] \<and>
   remdups_adj (stages airl_doc_example) =
     [ConstructEnv, ExpertPolicy, CollectRollouts, ConstructLearner, EvaluateLearner,
      TrainingLoop, EvaluateLearner] \<and>
   remdups_adj (stages custom_env_notebook) =
     [ConstructEnv, ExpertPolicy, CollectRollouts, ConstructLearner, EvaluateLearner,
      TrainingLoop, EvaluateLearner] \<and>
   remdups_adj (stages sqil_notebook) =
     [CollectRollouts, ConstructEnv, ConstructLearner, EvaluateLearner, TrainingLoop,
      EvaluateLearner]"
  by (simp add: airl_notebook_stages airl_doc_example_stages custom_env_notebook_stages
      sqil_notebook_stages)

lemma exec_plain: "\<not> is_try s \<Longrightarrow> exec ev s w = ev s w"
  by (cases s) simp_all

text \<open>
  Without \<^verbatim>\<open>try\<close> at its top level, a run that ends in an exception ends at the first
  statement that raises: the statements before it returned, none after it runs, and the
  exception and the world are the ones this statement left.
\<close>

lemma run_stops_at_failure:
  "\<not> list_ex is_try ss \<Longrightarrow> run ev ss w = Inl (x, wx) \<Longrightarrow>
     \<exists>pre s post w'. ss = pre @ s # post \<and> run ev pre w = Inr w' \<and> ev s w' = Inl (x, wx)"
proof (induction ss arbitrary: w)
  case Nil
  then show ?case by simp
next
  case (Cons s ss)
  from Cons.prems(1) have ex: "exec ev s w = ev s w"
    by (simp add: exec_plain)
  show ?case
  proof (cases "ev s w")
    case (Inl xw)
    with Cons.prems(2) ex have "ev s w = Inl (x, wx)"
      by simp
    then have "s # ss = [] @ s # ss \<and> run ev [] w = Inr w \<and> ev s w = Inl (x, wx)"
      by simp
    then show ?thesis by blast
  next
    case (Inr w1)
    with Cons.prems(2) ex have "run ev ss w1 = Inl (x, wx)"
      by simp
    moreover from Cons.prems(1) have "\<not> list_ex is_try ss"
      by simp
    ultimately obtain pre t post w' where
      "ss = pre @ t # post" and "run ev pre w1 = Inr w'" and "ev t w' = Inl (x, wx)"
      using Cons.IH by blast
    with Inr ex have
      "s # ss = (s # pre) @ t # post \<and> run ev (s # pre) w = Inr w' \<and> ev t w' = Inl (x, wx)"
      by simp
    then show ?thesis by blast
  qed
qed

text \<open>
  And the other way round: when the statements before a statement return and the
  statement raises, the run ends there, with that exception and the world the statement
  left, whatever statements follow.
\<close>

lemma run_append:
  "run ev (pre @ ss) w =
     (case run ev pre w of Inl xw \<Rightarrow> Inl xw | Inr w' \<Rightarrow> run ev ss w')"
  by (induction pre arbitrary: w) (auto split: sum.splits)

lemma raising_statement_ends_run:
  assumes "\<not> is_try s" and "run ev pre w = Inr w'" and "ev s w' = Inl (x, wx)"
  shows "run ev (pre @ s # post) w = Inl (x, wx)"
  using assms by (simp add: run_append exec_plain)

lemma sub_stmts_self: "s \<in> set (sub_stmts s)"
  by (cases s) simp_all

lemma top_level_try:
  assumes "\<not> handles_errors sc"
  shows "\<not> list_ex is_try (statements sc)"
proof
  assume "list_ex is_try (statements sc)"
  then obtain s where s: "s \<in> set (statements sc)" and t: "is_try s"
    by (auto simp: list_ex_iff)
  from s sub_stmts_self have "s \<in> set (all_stmts sc)"
    by (auto simp: all_stmts_def)
  with t assms show False
    by (auto simp: handles_errors_def list_ex_iff)
qed

lemma airl_notebook_no_try: "\<not> handles_errors airl_notebook"
  by code_simp

lemma sqil_notebook_no_try: "\<not> handles_errors sqil_notebook"
  by code_simp

lemma custom_env_notebook_no_try: "\<not> handles_errors custom_env_notebook"
  by code_simp

lemma airl_doc_example_no_try: "\<not> handles_errors airl_doc_example"
  by code_simp

lemma no_script_handles_errors: "sc \<in> set all_scripts \<Longrightarrow> \<not> handles_errors sc"
  using airl_notebook_no_try sqil_notebook_no_try custom_env_notebook_no_try
    airl_doc_example_no_try
  by (auto simp: all_scripts_def tutorials_def)

text \<open>
  C4. No statement of any notebook or of the documentation example, at any depth, is a
  \<^verbatim>\<open>try\<close>. So, however the statements are carried out: when a statement raises
  after the statements before it returned, the run of the script ends with that
  exception and with the world as that statement left it, and nothing after it runs;
  and a run ends in an exception only in this way. Nothing catches, retries or restores.
\<close>

theorem errors_surface_unhandled:
  "\<forall>sc \<in> set all_scripts.
     \<not> handles_errors sc \<and>
     (\<forall>ev pre s post w w' x wx.
        statements sc = pre @ s # post \<and> run ev pre w = Inr w' \<and> ev s w' = Inl (x, wx)
        \<longrightarrow> run ev (statements sc) w = Inl (x, wx)) \<and>
     (\<forall>ev w x wx. run ev (statements sc) w = Inl (x, wx) \<longrightarrow>
        (\<exists>pre s post w'. statements sc = pre @ s # post \<and>
           run ev pre w = Inr w' \<and> ev s w' = Inl (x, wx)))"
proof (intro ballI conjI allI impI)
  fix sc assume "sc \<in> set all_scripts"
  then show nh: "\<not> handles_errors sc"
    by (rule no_script_handles_errors)
  {
    fix ev :: "stmt \<Rightarrow> 'w \<Rightarrow> 'x \<times> 'w + 'w" and pre s post w w' x wx
    assume h: "statements sc = pre @ s # post \<and> run ev pre w = Inr w' \<and>
      ev s w' = Inl (x, wx)"
    then have "s \<in> set (statements sc)"
      by simp
    with top_level_try[OF nh] have "\<not> is_try s"
      by (auto simp: list_ex_iff)
    with h have "run ev (pre @ s # post) w = Inl (x, wx)"
      by (simp add: raising_statement_ends_run)
    with h show "run ev (statements sc) w = Inl (x, wx)"
      by simp
  }
  {
    fix ev :: "stmt \<Rightarrow> 'w \<Rightarrow> 'x \<times> 'w + 'w" and w x wx
    assume r: "run ev (statements sc) w = Inl (x, wx)"
    from top_level_try[OF nh] r
    show "\<exists>pre s post w'. statements sc = pre @ s # post \<and>
            run ev pre w = Inr w' \<and> ev s w' = Inl (x, wx)"
      by (rule run_stops_at_failure)
  }
qed

lemma sqil_download_position:
  "statements sqil_notebook =
     take 3 (statements sqil_notebook)
     @ Assign (Name ''dataset'')
         (Call (Attr (Name ''datasets'') ''load_dataset'')
            [Str ''HumanCompatibleAI/ppo-CartPole-v1''])
     # drop 4 (statements sqil_notebook)"
  by code_simp

lemma sqil_before_download:
  "run (fails_at 3) (take 3 (statements sqil_notebook)) 0 = Inr 3"
  by code_simp

text \<open>
  The SQIL notebook when its fourth statement, the download of the dataset, raises
  after the three imports before it returned: the run ends with that exception.
\<close>

theorem errors_surface_unhandled_witness:
  "sqil_notebook \<in> set all_scripts \<and>
   \<not> handles_errors sqil_notebook \<and>
   statements sqil_notebook =
     take 3 (statements sqil_notebook)
     @ Assign (Name ''dataset'')
         (Call (Attr (Name ''datasets'') ''load_dataset'')
            [Str ''HumanCompatibleAI/ppo-CartPole-v1''])
     # drop 4 (statements sqil_notebook) \<and>
   run (fails_at 3) (take 3 (statements sqil_notebook)) 0 = Inr 3 \<and>
   fails_at 3
     (Assign (Name ''dataset'')
        (Call (Attr (Name ''datasets'') ''load_dataset'')
           [Str ''HumanCompatibleAI/ppo-CartPole-v1''])) 3
     = Inl (''ConnectionError'', 3) \<and>
   run (fails_at 3) (statements sqil_notebook) 0 = Inl (''ConnectionError'', 3) \<and>
   (\<exists>pre s post w'. statements sqil_notebook = pre @ s # post \<and>
      run (fails_at 3) pre 0 = Inr w' \<and> fails_at 3 s w' = Inl (''ConnectionError'', 3))"
proof -
  let ?s = "Assign (Name ''dataset'')
     (Call (Attr (Name ''datasets'') ''load_dataset'')
        [Str ''HumanCompatibleAI/ppo-CartPole-v1''])"
  have m: "sqil_notebook \<in> set all_scripts"
    by (simp add: all_scripts_def tutorials_def)
  note p = sqil_download_position
  note b = sqil_before_download
  have f: "fails_at 3 ?s 3 = Inl (''ConnectionError'', 3)"
    by (simp add: fails_at_def)
  from errors_surface_unhandled m
  have h: "\<not> handles_errors sqil_notebook \<and>
     (\<forall>ev pre s post w w' x wx.
        statements sqil_notebook = pre @ s # post \<and> run ev pre w = Inr w' \<and>
        ev s w' = Inl (x :: string, wx :: nat)
        \<longrightarrow> run ev (statements sqil_notebook) w = Inl (x, wx)) \<and>
     (\<forall>ev w x wx. run ev (statements sqil_notebook) w = Inl (x, wx) \<longrightarrow>
        (\<exists>pre s post w'. statements sqil_notebook = pre @ s # post \<and>
           run ev pre w = Inr w' \<and> ev s w' = Inl (x :: string, wx :: nat)))"
    by (rule bspec)
  from h have nh: "\<not> handles_errors sqil_notebook"
    by (rule conjunct1)
  from p b f have "statements sqil_notebook
      = take 3 (statements sqil_notebook) @ ?s # drop 4 (statements sqil_notebook) \<and>
    run (fails_at 3) (take 3 (statements sqil_notebook)) 0 = Inr 3 \<and>
    fails_at 3 ?s 3 = Inl (''ConnectionError'', 3)"
    by (intro conjI)
  from h [THEN conjunct2, THEN conjunct1, rule_format, OF this]
  have r: "run (fails_at 3) (statements sqil_notebook) 0 = Inl (''ConnectionError'', 3)" .
  from h [THEN conjunct2, THEN conjunct2, rule_format, OF r]
  have "\<exists>pre s post w'. statements sqil_notebook = pre @ s # post \<and>
      run (fails_at 3) pre 0 = Inr w' \<and> fails_at 3 s w' = Inl (''ConnectionError'', 3)" .
  with m nh p b f r show ?thesis
    by (intro conjI)
qed

lemma airl_notebook_prints: "prints_trained_reward airl_notebook"
  by code_simp

lemma sqil_notebook_prints: "prints_trained_reward sqil_notebook"
  by code_simp

lemma custom_env_notebook_prints: "prints_trained_reward custom_env_notebook"
  by code_simp

lemma airl_doc_example_prints: "prints_trained_reward airl_doc_example"
  by code_simp

lemma sqil_notebook_finishes: "finishes_by_printing_trained_reward sqil_notebook"
  by code_simp

lemma custom_env_notebook_finishes: "finishes_by_printing_trained_reward custom_env_notebook"
  by code_simp

lemma airl_notebook_reward_prints:
  "filter (\<lambda>ps. ps \<noteq> []) (reward_prints airl_notebook) = [[True], [False]] \<and>
   last (reward_prints airl_notebook) = []"
  by code_simp

lemma airl_doc_example_reward_prints:
  "filter (\<lambda>ps. ps \<noteq> []) (reward_prints airl_doc_example) = [[True], [False]] \<and>
   last (reward_prints airl_doc_example) = [False]"
  by code_simp

text \<open>
  C5, as the specification states it, fails: the AIRL notebook does not finish by
  printing the mean reward of the trained policy. After that print it prints the mean
  reward of the evaluation made before training, and its last statements plot.
\<close>

theorem finishes_by_printing_counterexample:
  "\<not> finishes_by_printing_trained_reward airl_notebook"
  by code_simp

text \<open>
  C5, amended. In every script the last code cell has a \<^verbatim>\<open>print\<close> statement that is
  given the mean reward of an evaluation of the learner made after its training loop
  was called, the variable still holding that result when it is printed:
  \<^verbatim>\<open>reward_after_training\<close>, the mean that \<^verbatim>\<open>evaluate_policy\<close> returns first, or
  \<^verbatim>\<open>np.mean(learner_rewards_after_training)\<close> where the evaluation returned the
  rewards of the episodes. In the SQIL notebook and the custom-environment notebook this
  is the last statement. The AIRL notebook and the AIRL documentation example print this
  mean and then the mean of the evaluation made before training, and nothing else about
  rewards; the notebook's last statement prints nothing.
\<close>

theorem last_cell_prints_trained_reward:
  "(\<forall>sc \<in> set all_scripts. prints_trained_reward sc) \<and>
   finishes_by_printing_trained_reward sqil_notebook \<and>
   finishes_by_printing_trained_reward custom_env_notebook \<and>
   filter (\<lambda>ps. ps \<noteq> []) (reward_prints airl_notebook) = [[True], [False]] \<and>
   last (reward_prints airl_notebook) = [] \<and>
   filter (\<lambda>ps. ps \<noteq> []) (reward_prints airl_doc_example) = [[True], [False]] \<and>
   last (reward_prints airl_doc_example) = [False]"
proof -
  have "\<forall>sc \<in> set all_scripts. prints_trained_reward sc"
    using airl_notebook_prints sqil_notebook_prints custom_env_notebook_prints
      airl_doc_example_prints
    by (simp add: all_scripts_def tutorials_def)
  with sqil_notebook_finishes custom_env_notebook_finishes airl_notebook_reward_prints
    airl_doc_example_reward_prints
  show ?thesis by (intro conjI) simp_all
qed

theorem last_cell_prints_trained_reward_witness:
  "custom_env_notebook \<in> set all_scripts \<and> prints_trained_reward custom_env_notebook"
proof -
  have m: "custom_env_notebook \<in> set all_scripts"
    by (simp add: all_scripts_def tutorials_def)
  from last_cell_prints_trained_reward
  have "\<forall>sc \<in> set all_scripts. prints_trained_reward sc"
    by (rule conjunct1)
  with m show ?thesis
    by blast
qed













end
